theory Spec2Isabelle
  imports Main "HOL-Library.List_Lexorder" "HOL-Library.Char_ord"
begin

text \<open>
  The local HTTP server of the application: the routes of \<^verbatim>\<open>pythonRoutes.ts\<close> and of its
  earlier copy.  A route is a function from the request and from what the environment does
  (the behaviour of \<^verbatim>\<open>spawn\<close>, the events of the child process and of the connection, the
  reading of the clock) to the final state of the request: the response sent, the child
  process started, and the exceptions left uncaught.  What Express, multer and Node do on
  behalf of the handlers is modelled beside them, as far as the handlers rely on it.
\<close>

section \<open>JavaScript values used by the route handlers\<close>

text \<open>
  A JavaScript string is modelled as a HOL \<open>string\<close>: the list of its code units, here
  restricted to the code units below 256.  A chunk read from the child process is the
  string that \<^verbatim>\<open>data.toString()\<close> yields.

  JSON values are the values the handlers build as object literals and the values that
  \<^verbatim>\<open>JSON.parse\<close> returns for the \<^verbatim>\<open>images\<close> and \<^verbatim>\<open>messages\<close> fields.  Numbers are
  restricted to the integers: the only numbers the handlers create themselves are exit
  codes and file sizes.
\<close>

datatype json =
    JNull
  | JBool bool
  | JNum int
  | JStr string
  | JArr "json list"
  | JObj "(string \<times> json) list"

subsection \<open>\<^verbatim>\<open>JSON.stringify\<close>\<close>

definition hex_digit :: "nat \<Rightarrow> char" where
  "hex_digit n = ''0123456789abcdef'' ! (n mod 16)"

text \<open>The escape that \<^verbatim>\<open>JSON.stringify\<close> applies to one code unit of a string (QuoteJSONString).\<close>

definition json_escape_char :: "char \<Rightarrow> string" where
  "json_escape_char c =
     (let n = (of_char c :: nat) in
      if n = 34 then [CHR 0x5C, CHR 0x22]
      else if n = 92 then [CHR 0x5C, CHR 0x5C]
      else if n = 8 then [CHR 0x5C, CHR ''b'']
      else if n = 12 then [CHR 0x5C, CHR ''f'']
      else if n = 10 then [CHR 0x5C, CHR ''n'']
      else if n = 13 then [CHR 0x5C, CHR ''r'']
      else if n = 9 then [CHR 0x5C, CHR ''t'']
      else if n < 32 then [CHR 0x5C, CHR ''u'', CHR ''0'', CHR ''0'', hex_digit (n div 16), hex_digit n]
      else [c])"

definition json_quote :: "string \<Rightarrow> string" where
  "json_quote s = [CHR 0x22] @ concat (map json_escape_char s) @ [CHR 0x22]"

definition digit :: "nat \<Rightarrow> char" where
  "digit n = ''0123456789'' ! (n mod 10)"

text \<open>The decimal numeral of a natural number, as \<^verbatim>\<open>String(n)\<close> writes it.\<close>

fun string_of_nat :: "nat \<Rightarrow> string" where
  "string_of_nat n = (if n < 10 then [digit n] else string_of_nat (n div 10) @ [digit n])"

declare string_of_nat.simps [simp del]

definition string_of_int :: "int \<Rightarrow> string" where
  "string_of_int i = (if i < 0 then CHR ''-'' # string_of_nat (nat (- i)) else string_of_nat (nat i))"

fun join_with :: "string \<Rightarrow> string list \<Rightarrow> string" where
  "join_with sep [] = []"
| "join_with sep [x] = x"
| "join_with sep (x # y # ys) = x @ sep @ join_with sep (y # ys)"

fun json_stringify :: "json \<Rightarrow> string" where
  "json_stringify JNull = ''null''"
| "json_stringify (JBool b) = (if b then ''true'' else ''false'')"
| "json_stringify (JNum i) = string_of_int i"
| "json_stringify (JStr s) = json_quote s"
| "json_stringify (JArr xs) = ''['' @ join_with '','' (map json_stringify xs) @ '']''"
| "json_stringify (JObj kvs) =
     ''{'' @ join_with '','' (map (\<lambda>(k, v). json_quote k @ '':'' @ json_stringify v) kvs) @ ''}''"

subsection \<open>\<^verbatim>\<open>Buffer.toString('base64')\<close> and \<^verbatim>\<open>String.prototype.trim\<close>\<close>

definition b64_char :: "nat \<Rightarrow> char" where
  "b64_char n =
     ''ABCDEFGHIJKLMNOPQRSTUVWXYZabcdefghijklmnopqrstuvwxyz0123456789+/'' ! (n mod 64)"

fun b64_bytes :: "nat list \<Rightarrow> string" where
  "b64_bytes [] = []"
| "b64_bytes [a] = [b64_char (a div 4), b64_char ((a mod 4) * 16), CHR ''='', CHR ''='']"
| "b64_bytes [a, b] =
     [b64_char (a div 4), b64_char ((a mod 4) * 16 + b div 16), b64_char ((b mod 16) * 4), CHR ''='']"
| "b64_bytes (a # b # c # r) =
     [b64_char (a div 4), b64_char ((a mod 4) * 16 + b div 16),
      b64_char ((b mod 16) * 4 + c div 64), b64_char (c mod 64)] @ b64_bytes r"

definition base64 :: "string \<Rightarrow> string" where
  "base64 buf = b64_bytes (map of_char buf)"

text \<open>White space and line terminators among the code units below 256.\<close>

definition js_space :: "char \<Rightarrow> bool" where
  "js_space c = ((of_char c :: nat) \<in> {9, 10, 11, 12, 13, 32, 160})"

definition js_trim :: "string \<Rightarrow> string" where
  "js_trim s = rev (dropWhile js_space (rev (dropWhile js_space s)))"

subsection \<open>\<^verbatim>\<open>Date.prototype.toISOString\<close>\<close>

text \<open>
  A time value is the number of milliseconds since the epoch that \<^verbatim>\<open>new Date()\<close> reads from
  the system clock; time values before the epoch are not modelled.  The calendar is that of
  ECMAScript: days of 86400000 ms, counted from the first of January 1970, in the proleptic
  Gregorian calendar, in UTC.
\<close>

definition leap_year :: "nat \<Rightarrow> bool" where
  "leap_year y = (y mod 4 = 0 \<and> (y mod 100 \<noteq> 0 \<or> y mod 400 = 0))"

definition days_in_year :: "nat \<Rightarrow> nat" where
  "days_in_year y = (if leap_year y then 366 else 365)"

text \<open>The year of a day counted from the first day of year \<open>y\<close>, and the day within that year.\<close>

function year_from_days :: "nat \<Rightarrow> nat \<Rightarrow> nat \<times> nat" where
  "year_from_days y d =
     (if d < days_in_year y then (y, d) else year_from_days (Suc y) (d - days_in_year y))"
  by pat_completeness auto
termination
  by (relation "measure (\<lambda>(y, d). d)") (auto simp add: days_in_year_def)

declare year_from_days.simps [simp del]

definition month_lengths :: "nat \<Rightarrow> nat list" where
  "month_lengths y = [31, if leap_year y then 29 else 28, 31, 30, 31, 30, 31, 31, 30, 31, 30, 31]"

text \<open>The month (from 0) of a day within the year, and the day (from 0) within that month.\<close>

fun month_from_days :: "nat list \<Rightarrow> nat \<Rightarrow> nat \<times> nat" where
  "month_from_days [] d = (0, d)"
| "month_from_days (m # ms) d =
     (if d < m then (0, d)
      else (case month_from_days ms (d - m) of (k, r) \<Rightarrow> (Suc k, r)))"

definition padStart :: "nat \<Rightarrow> string \<Rightarrow> string" where
  "padStart w s = replicate (w - length s) (CHR ''0'') @ s"

text \<open>Years up to 9999 are written with four digits, later years with a sign and six.\<close>

definition iso_date :: "nat \<Rightarrow> string" where
  "iso_date day =
     (case year_from_days 1970 day of (y, yd) \<Rightarrow>
      (case month_from_days (month_lengths y) yd of (m, md) \<Rightarrow>
        (if y \<le> 9999 then padStart 4 (string_of_nat y)
         else CHR ''+'' # padStart 6 (string_of_nat y))
        @ ''-'' @ padStart 2 (string_of_nat (m + 1))
        @ ''-'' @ padStart 2 (string_of_nat (md + 1))))"

definition iso_time :: "nat \<Rightarrow> string" where
  "iso_time t =
     padStart 2 (string_of_nat (t div 3600000 mod 24))
     @ '':'' @ padStart 2 (string_of_nat (t div 60000 mod 60))
     @ '':'' @ padStart 2 (string_of_nat (t div 1000 mod 60))
     @ ''.'' @ padStart 3 (string_of_nat (t mod 1000))"

definition YearFromTime :: "nat \<Rightarrow> nat" where
  "YearFromTime t = fst (year_from_days 1970 (t div 86400000))"

definition toISOString :: "nat \<Rightarrow> string" where
  "toISOString t = iso_date (t div 86400000) @ ''T'' @ iso_time t @ ''Z''"

section \<open>The HTTP response object\<close>

datatype js_error =
    Error string
  | MulterError string
  | SyntaxError
  | TypeError
  | ERR_HTTP_HEADERS_SENT
  | UnhandledErrorEvent string

record response =
  statusCode :: nat
  headers :: "(string \<times> string) list"
  body :: "string list"
  headersSent :: bool
  finished :: bool

definition new_response :: response where
  "new_response =
     \<lparr>statusCode = 200, headers = [], body = [], headersSent = False, finished = False\<rparr>"

definition getHeader :: "response \<Rightarrow> string \<Rightarrow> string option" where
  "getHeader r k = map_of (headers r) k"

text \<open>\<^verbatim>\<open>res.setHeader\<close> throws once the head of the response has gone out.\<close>

definition setHeader :: "string \<Rightarrow> string \<Rightarrow> response \<Rightarrow> js_error + response" where
  "setHeader k v r =
     (if headersSent r then Inl ERR_HTTP_HEADERS_SENT
      else Inr (r\<lparr>headers := filter (\<lambda>(k', _). k' \<noteq> k) (headers r) @ [(k, v)]\<rparr>))"

text \<open>\<^verbatim>\<open>res.status\<close>: the status code of a head not yet sent.\<close>

definition res_status :: "nat \<Rightarrow> response \<Rightarrow> response" where
  "res_status n r = (if headersSent r then r else r\<lparr>statusCode := n\<rparr>)"

text \<open>
  \<^verbatim>\<open>res.write\<close>: the first write sends the head; the chunk is one write on the wire.
  A write after \<^verbatim>\<open>end()\<close> does not reach the client.
\<close>

definition res_write :: "string \<Rightarrow> response \<Rightarrow> response" where
  "res_write chunk r =
     (if finished r then r else r\<lparr>body := body r @ [chunk], headersSent := True\<rparr>)"

definition res_end :: "response \<Rightarrow> response" where
  "res_end r = r\<lparr>headersSent := True, finished := True\<rparr>"

text \<open>
  Express's \<^verbatim>\<open>res.json(obj)\<close>: the body is \<^verbatim>\<open>JSON.stringify(obj)\<close>; the content type is
  \<^verbatim>\<open>application/json\<close> unless one is already set; \<^verbatim>\<open>res.send\<close> then sets the charset (and
  further headers, not modelled) with \<^verbatim>\<open>setHeader\<close>, which throws when the head was already
  sent; otherwise the body is written and the response ended.
\<close>

definition res_json :: "json \<Rightarrow> response \<Rightarrow> js_error + response" where
  "res_json obj r =
     (let ct = (case getHeader r ''Content-Type'' of
                  None \<Rightarrow> ''application/json''
                | Some t \<Rightarrow> t)
      in case setHeader ''Content-Type'' (ct @ ''; charset=utf-8'') r of
           Inl e \<Rightarrow> Inl e
         | Inr r' \<Rightarrow> Inr (res_end (res_write (json_stringify obj) r')))"

section \<open>Requests, uploads and the child process\<close>

record upload_file =
  fieldname :: string
  originalname :: string
  mimetype :: string
  buffer :: string

text \<open>
  A multipart request: the text fields the handlers read and the file part it carries, if
  any.  The text of \<^verbatim>\<open>images\<close> and of \<^verbatim>\<open>messages\<close> is represented by what the handler's
  \<^verbatim>\<open>req.body.f ? JSON.parse(req.body.f) : []\<close> meets: no text (absent or empty), a text that
  \<^verbatim>\<open>JSON.parse\<close> rejects, or the parsed value.
\<close>

datatype json_text = Absent | Malformed | Parsed json

record request =
  body_prompt :: "string option"
  body_images :: json_text
  body_messages :: json_text
  file_part :: "upload_file option"

record multer_options =
  limits_fileSize :: nat
  fileFilter :: "upload_file \<Rightarrow> js_error + bool"

definition upload :: multer_options where
  "upload = \<lparr>limits_fileSize = 10 * 1024 * 1024, fileFilter = (\<lambda>file. Inr True)\<rparr>"

definition documentUpload :: multer_options where
  "documentUpload =
     \<lparr>limits_fileSize = 20 * 1024 * 1024,
      fileFilter = (\<lambda>file.
         if mimetype file = ''application/pdf'' then Inr True
         else Inl (Error ''Only PDF files are allowed''))\<rparr>"

definition audioUpload :: multer_options where
  "audioUpload = \<lparr>limits_fileSize = 10 * 1024 * 1024, fileFilter = (\<lambda>file. Inr True)\<rparr>"

text \<open>
  multer's \<^verbatim>\<open>single(name)\<close> with memory storage: a file part under another field name is
  refused, the filter is asked before the content is read, and a content longer than the
  limit is refused.  The result is \<^verbatim>\<open>req.file\<close>.  (Whether a content of exactly the limit
  passes depends on the version of the multipart parser; nothing below relies on it.)
\<close>

definition single :: "multer_options \<Rightarrow> string \<Rightarrow> request \<Rightarrow> js_error + upload_file option" where
  "single opts name req =
     (case file_part req of
        None \<Rightarrow> Inr None
      | Some f \<Rightarrow>
          if fieldname f \<noteq> name then Inl (MulterError ''LIMIT_UNEXPECTED_FILE'')
          else (case fileFilter opts f of
                  Inl e \<Rightarrow> Inl e
                | Inr False \<Rightarrow> Inr None
                | Inr True \<Rightarrow>
                    if length (buffer f) > limits_fileSize opts then Inl (MulterError ''LIMIT_FILE_SIZE'')
                    else Inr (Some f)))"

record child_process =
  command :: string
  args :: "string list"
  stdin_written :: "string list"
  stdin_ended :: bool
  exited :: bool
  signals :: "string list"

definition spawn :: "string \<Rightarrow> string list \<Rightarrow> child_process" where
  "spawn cmd as =
     \<lparr>command = cmd, args = as, stdin_written = [], stdin_ended = False,
      exited = False, signals = []\<rparr>"

definition stdin_write :: "string \<Rightarrow> child_process \<Rightarrow> child_process" where
  "stdin_write s p = (if stdin_ended p then p else p\<lparr>stdin_written := stdin_written p @ [s]\<rparr>)"

definition stdin_end :: "child_process \<Rightarrow> child_process" where
  "stdin_end p = p\<lparr>stdin_ended := True\<rparr>"

text \<open>\<^verbatim>\<open>kill()\<close> sends SIGTERM while the process handle is open, and nothing afterwards.\<close>

definition kill :: "child_process \<Rightarrow> child_process" where
  "kill p = (if exited p then p else p\<lparr>signals := signals p @ [''SIGTERM'']\<rparr>)"

text \<open>
  What the event loop delivers to one request after its handler has returned: output of
  the child, the child's \<^verbatim>\<open>close\<close> event with its exit code (\<open>None\<close> is JavaScript's
  \<^verbatim>\<open>null\<close>: the child was ended by a signal), the child's \<^verbatim>\<open>error\<close> event (the executable
  could not be started), and the \<^verbatim>\<open>close\<close> event of the request (the client went away).
  A child with an \<^verbatim>\<open>error\<close> listener that could not be started emits \<^verbatim>\<open>error\<close> and then
  \<^verbatim>\<open>close\<close> with a negative code.  A child without one has the \<^verbatim>\<open>error\<close> event thrown
  inside Node's exit callback, so that no \<^verbatim>\<open>close\<close> event follows it.
\<close>

datatype event =
    StdoutData string
  | StderrData string
  | ChildClose "int option"
  | ChildError string
  | ReqClose

text \<open>\<^verbatim>\<open>spawn\<close> either throws at once or returns a child whose events follow.\<close>

datatype spawn_behaviour = SpawnThrows string | Spawned "event list"

text \<open>
  The state of one request: its response, its child, the output accumulated by the
  listeners, and the exceptions that left a listener uncaught.  By default such an
  exception ends a Node process; the model goes on delivering events, as a process with a
  handler for uncaught exceptions does.
\<close>

record server_state =
  res :: response
  child :: "child_process option"
  stdout_output :: string
  errorOutput :: string
  uncaught :: "js_error list"

definition initial_state :: server_state where
  "initial_state =
     \<lparr>res = new_response, child = None, stdout_output = [], errorOutput = [], uncaught = []\<rparr>"

record config =
  PYTHON_EXECUTABLE :: string
  PYTHON_SCRIPT_PATH :: string

section \<open>The router\<close>

subsection \<open>Dispatch\<close>

definition error_message :: "js_error \<Rightarrow> string" where
  "error_message e =
     (case e of
        Error m \<Rightarrow> m
      | MulterError c \<Rightarrow> c
      | SyntaxError \<Rightarrow> ''SyntaxError''
      | TypeError \<Rightarrow> ''TypeError''
      | ERR_HTTP_HEADERS_SENT \<Rightarrow> ''Cannot set headers after they are sent to the client''
      | UnhandledErrorEvent m \<Rightarrow> m)"

text \<open>
  The server installs no error middleware, so an error passed on by a middleware or thrown
  by a handler reaches Express's default error handler.  None of the errors above has a
  \<^verbatim>\<open>status\<close> property, so the status is 500; the body is an HTML page (its markup is not
  modelled, the page is represented by the error's message).
\<close>

definition express_error :: "js_error \<Rightarrow> server_state \<Rightarrow> server_state" where
  "express_error e st =
     (if headersSent (res st) then st\<lparr>res := res_end (res st)\<rparr>
      else st\<lparr>res := res_end (res_write (error_message e)
             ((res st)\<lparr>statusCode := 500,
                        headers := [(''Content-Type'', ''text/html; charset=utf-8'')]\<rparr>))\<rparr>)"

text \<open>The state of the child's handle when an event is delivered: gone at \<^verbatim>\<open>close\<close> and at \<^verbatim>\<open>error\<close>.\<close>

definition settle :: "event \<Rightarrow> server_state \<Rightarrow> server_state" where
  "settle e st =
     (case e of
        ChildClose code \<Rightarrow> st\<lparr>child := map_option (\<lambda>p. p\<lparr>exited := True\<rparr>) (child st)\<rparr>
      | ChildError m \<Rightarrow> st\<lparr>child := map_option (\<lambda>p. p\<lparr>exited := True\<rparr>) (child st)\<rparr>
      | _ \<Rightarrow> st)"

fun run :: "(event \<Rightarrow> server_state \<Rightarrow> server_state) \<Rightarrow> event list \<Rightarrow> server_state \<Rightarrow> server_state" where
  "run listener [] st = st"
| "run listener (e # es) st = run listener es (listener e (settle e st))"

text \<open>
  A route with an upload middleware in front of its handler.  An exception that leaves the
  handler is caught by Express and handed to the default error handler.
\<close>

definition route ::
  "multer_options \<Rightarrow> string \<Rightarrow>
   (request \<Rightarrow> upload_file option \<Rightarrow> spawn_behaviour \<Rightarrow> server_state \<Rightarrow> js_error + server_state) \<Rightarrow>
   request \<Rightarrow> spawn_behaviour \<Rightarrow> server_state" where
  "route opts name handler req sp =
     (case single opts name req of
        Inl e \<Rightarrow> express_error e initial_state
      | Inr file \<Rightarrow>
          (case handler req file sp initial_state of
             Inl e \<Rightarrow> express_error e initial_state
           | Inr st \<Rightarrow> st))"

text \<open>\<^verbatim>\<open>res.status(code).json(obj)\<close> as a statement of a handler.\<close>

definition reply :: "nat \<Rightarrow> json \<Rightarrow> server_state \<Rightarrow> js_error + server_state" where
  "reply code obj st =
     (case res_json obj (res_status code (res st)) of
        Inl e \<Rightarrow> Inl e
      | Inr r \<Rightarrow> Inr (st\<lparr>res := r\<rparr>))"

text \<open>
  \<^verbatim>\<open>res.json(obj)\<close> and \<^verbatim>\<open>res.status(code).json(obj)\<close> inside an event listener: an
  exception there is caught by nobody.
\<close>

definition json_in_listener :: "json \<Rightarrow> server_state \<Rightarrow> server_state" where
  "json_in_listener obj st =
     (case res_json obj (res st) of
        Inl e \<Rightarrow> st\<lparr>uncaught := uncaught st @ [e]\<rparr>
      | Inr r \<Rightarrow> st\<lparr>res := r\<rparr>)"

definition reply_in_listener :: "nat \<Rightarrow> json \<Rightarrow> server_state \<Rightarrow> server_state" where
  "reply_in_listener code obj st =
     (case reply code obj st of
        Inl e \<Rightarrow> st\<lparr>uncaught := uncaught st @ [e]\<rparr>
      | Inr st' \<Rightarrow> st')"

subsection \<open>\<^verbatim>\<open>POST /prompt\<close>\<close>

text \<open>\<^verbatim>\<open>req.body.f ? JSON.parse(req.body.f) : []\<close>\<close>

definition parse_field :: "json_text \<Rightarrow> js_error + json" where
  "parse_field t =
     (case t of
        Absent \<Rightarrow> Inr (JArr [])
      | Malformed \<Rightarrow> Inl SyntaxError
      | Parsed v \<Rightarrow> Inr v)"

text \<open>
  The \<^verbatim>\<open>length\<close> property of a parsed value: \<open>None\<close> is \<^verbatim>\<open>undefined\<close> (or not a number), and
  reading a property of \<^verbatim>\<open>null\<close> throws.
\<close>

definition js_length :: "json \<Rightarrow> js_error + int option" where
  "js_length v =
     (case v of
        JNull \<Rightarrow> Inl TypeError
      | JArr xs \<Rightarrow> Inr (Some (int (length xs)))
      | JStr s \<Rightarrow> Inr (Some (int (length s)))
      | JObj kvs \<Rightarrow>
          Inr (case map_of (rev kvs) ''length'' of Some (JNum n) \<Rightarrow> Some n | _ \<Rightarrow> None)
      | _ \<Rightarrow> Inr None)"

definition sse_data :: "json \<Rightarrow> string" where
  "sse_data v = ''data: '' @ json_stringify v @ [CHR 0x0A, CHR 0x0A]"

definition json_code :: "int option \<Rightarrow> json" where
  "json_code code = (case code of None \<Rightarrow> JNull | Some c \<Rightarrow> JNum c)"

definition complete_event :: "int option \<Rightarrow> string" where
  "complete_event code = sse_data (JObj [(''type'', JStr ''complete''), (''code'', json_code code)])"

definition chunk_event :: "string \<Rightarrow> string" where
  "chunk_event content = sse_data (JObj [(''type'', JStr ''chunk''), (''content'', JStr content)])"

definition error_event :: "string \<Rightarrow> string" where
  "error_event content = sse_data (JObj [(''type'', JStr ''error''), (''content'', JStr content)])"

definition sse_headers :: "response \<Rightarrow> js_error + response" where
  "sse_headers r =
     (case setHeader ''Content-Type'' ''text/event-stream'' r of
        Inl e \<Rightarrow> Inl e
      | Inr r1 \<Rightarrow>
     (case setHeader ''Cache-Control'' ''no-cache'' r1 of
        Inl e \<Rightarrow> Inl e
      | Inr r2 \<Rightarrow>
     (case setHeader ''Connection'' ''keep-alive'' r2 of
        Inl e \<Rightarrow> Inl e
      | Inr r3 \<Rightarrow> setHeader ''Access-Control-Allow-Origin'' ''*'' r3)))"

text \<open>
  The listeners of \<^verbatim>\<open>/prompt\<close>.  Output is written to the response as it is; the handlers
  for the client's disconnect and for the child's \<^verbatim>\<open>error\<close> event are commented out in the
  source, so the first is ignored and the second, an \<^verbatim>\<open>error\<close> event without a listener, is
  thrown by the emitter; it is then the last event of the child.
\<close>

fun prompt_listener :: "event \<Rightarrow> server_state \<Rightarrow> server_state" where
  "prompt_listener (StdoutData d) st = st\<lparr>res := res_write d (res st)\<rparr>"
| "prompt_listener (StderrData d) st = st"
| "prompt_listener (ChildClose code) st =
     st\<lparr>res := res_end (res_write (complete_event code) (res st)),
        child := map_option kill (child st)\<rparr>"
| "prompt_listener (ChildError m) st = st\<lparr>uncaught := uncaught st @ [UnhandledErrorEvent m]\<rparr>"
| "prompt_listener ReqClose st = st"

definition prompt_payload :: "string \<Rightarrow> json \<Rightarrow> json \<Rightarrow> upload_file option \<Rightarrow> json" where
  "prompt_payload promptInput images messages file =
     JObj [(''prompt'', JStr promptInput), (''images'', images), (''messages'', messages),
           (''audioBuffer'', case file of None \<Rightarrow> JNull | Some f \<Rightarrow> JStr (base64 (buffer f)))]"

text \<open>
  The values the handler of \<^verbatim>\<open>/prompt\<close> reads from the request.  Its logging reads the
  \<^verbatim>\<open>length\<close> of both parsed values before the required fields are checked.
\<close>

definition prompt_inputs :: "request \<Rightarrow> js_error + string \<times> json \<times> json" where
  "prompt_inputs req =
     (let promptInput = (case body_prompt req of None \<Rightarrow> [] | Some s \<Rightarrow> s) in
     (case parse_field (body_images req) of
        Inl e \<Rightarrow> Inl e
      | Inr images \<Rightarrow>
     (case parse_field (body_messages req) of
        Inl e \<Rightarrow> Inl e
      | Inr messages \<Rightarrow>
     (case js_length images of
        Inl e \<Rightarrow> Inl e
      | Inr images_length \<Rightarrow>
     (case js_length messages of
        Inl e \<Rightarrow> Inl e
      | Inr messages_length \<Rightarrow> Inr (promptInput, images, messages))))))"

definition prompt_handler ::
  "config \<Rightarrow> request \<Rightarrow> upload_file option \<Rightarrow> spawn_behaviour \<Rightarrow> server_state \<Rightarrow>
   js_error + server_state" where
  "prompt_handler cfg req file sp st =
     (case prompt_inputs req of
        Inl e \<Rightarrow> Inl e
      | Inr (promptInput, images, messages) \<Rightarrow>
          if promptInput = [] \<and> js_length images = Inr (Some 0) \<and> file = None
          then reply 400 (JObj [(''error'', JStr ''Prompt, images, or audio are required'')]) st
          else
            (case sse_headers (res st) of
               Inl e \<Rightarrow> Inl e
             | Inr r \<Rightarrow>
                 (let userInput = json_stringify (prompt_payload promptInput images messages file)
                  in (case sp of
                        SpawnThrows m \<Rightarrow>
                          reply 500 (JObj [(''error'', JStr ''Failed to process prompt'')])
                            (st\<lparr>res := r\<rparr>)
                      | Spawned evs \<Rightarrow>
                          Inr (run prompt_listener evs
                                (st\<lparr>res := r,
                                    child := Some (stdin_end (stdin_write userInput
                                      (spawn (PYTHON_EXECUTABLE cfg)
                                         [PYTHON_SCRIPT_PATH cfg])))\<rparr>))))))"

definition post_prompt :: "config \<Rightarrow> request \<Rightarrow> spawn_behaviour \<Rightarrow> server_state" where
  "post_prompt cfg = route upload ''audio'' (prompt_handler cfg)"

subsection \<open>\<^verbatim>\<open>POST /transcribe-audio\<close>\<close>

text \<open>\<^verbatim>\<open>errorOutput || output\<close>\<close>

definition or_else :: "string \<Rightarrow> string \<Rightarrow> string" where
  "or_else a b = (if a \<noteq> [] then a else b)"

fun transcribe_listener :: "event \<Rightarrow> server_state \<Rightarrow> server_state" where
  "transcribe_listener (StdoutData d) st = st\<lparr>stdout_output := stdout_output st @ d\<rparr>"
| "transcribe_listener (StderrData d) st = st\<lparr>errorOutput := errorOutput st @ d\<rparr>"
| "transcribe_listener (ChildClose code) st =
     (if code = Some 0
      then json_in_listener
             (JObj [(''success'', JBool True),
                    (''transcribedText'', JStr (js_trim (stdout_output st)))]) st
      else reply_in_listener 500
             (JObj [(''success'', JBool False),
                    (''error'', JStr ''Failed to transcribe audio''),
                    (''details'', JStr (or_else (errorOutput st) (stdout_output st)))]) st)"
| "transcribe_listener (ChildError m) st =
     reply_in_listener 500
       (JObj [(''success'', JBool False),
              (''error'', JStr ''Failed to start audio transcription''),
              (''details'', JStr m)]) st"
| "transcribe_listener ReqClose st = st"

definition transcribe_handler ::
  "config \<Rightarrow> request \<Rightarrow> upload_file option \<Rightarrow> spawn_behaviour \<Rightarrow> server_state \<Rightarrow>
   js_error + server_state" where
  "transcribe_handler cfg req file sp st =
     (case file of
        None \<Rightarrow> reply 400 (JObj [(''error'', JStr ''No audio file provided'')]) st
      | Some f \<Rightarrow>
          (let userInput = json_stringify (JObj [(''audio_to_transcribe'', JStr (base64 (buffer f)))])
           in (case sp of
                 SpawnThrows m \<Rightarrow>
                   reply 500 (JObj [(''error'', JStr ''Failed to process audio transcription''),
                                    (''details'', JStr m)]) st
               | Spawned evs \<Rightarrow>
                   Inr (run transcribe_listener evs
                         (st\<lparr>child := Some (stdin_end (stdin_write userInput
                                 (spawn ''python3'' [PYTHON_SCRIPT_PATH cfg])))\<rparr>)))))"

definition post_transcribe_audio :: "config \<Rightarrow> request \<Rightarrow> spawn_behaviour \<Rightarrow> server_state" where
  "post_transcribe_audio cfg = route audioUpload ''audio'' (transcribe_handler cfg)"

subsection \<open>\<^verbatim>\<open>POST /upload-document\<close>\<close>

fun document_listener :: "string \<Rightarrow> nat \<Rightarrow> event \<Rightarrow> server_state \<Rightarrow> server_state" where
  "document_listener originalName fileSize (StdoutData d) st =
     st\<lparr>stdout_output := stdout_output st @ d\<rparr>"
| "document_listener originalName fileSize (StderrData d) st =
     st\<lparr>errorOutput := errorOutput st @ d\<rparr>"
| "document_listener originalName fileSize (ChildClose code) st =
     (if code = Some 0
      then json_in_listener
             (JObj [(''success'', JBool True),
                    (''message'', JStr ''Document processed and added to knowledge base successfully''),
                    (''filename'', JStr originalName),
                    (''size'', JNum (int fileSize)),
                    (''output'', JStr (js_trim (stdout_output st)))]) st
      else reply_in_listener 500
             (JObj [(''success'', JBool False),
                    (''error'', JStr ''Failed to process document for RAG''),
                    (''details'', JStr (or_else (errorOutput st) (stdout_output st))),
                    (''filename'', JStr originalName)]) st)"
| "document_listener originalName fileSize (ChildError m) st =
     reply_in_listener 500
       (JObj [(''success'', JBool False),
              (''error'', JStr ''Failed to start document processing''),
              (''details'', JStr m)]) st"
| "document_listener originalName fileSize ReqClose st = st"

definition document_handler ::
  "config \<Rightarrow> request \<Rightarrow> upload_file option \<Rightarrow> spawn_behaviour \<Rightarrow> server_state \<Rightarrow>
   js_error + server_state" where
  "document_handler cfg req file sp st =
     (case file of
        None \<Rightarrow> reply 400 (JObj [(''error'', JStr ''No document file provided'')]) st
      | Some f \<Rightarrow>
          (let originalName = originalname f;
               fileSize = length (buffer f);
               userInput = json_stringify
                 (JObj [(''document_to_ingest'',
                         JObj [(''content'', JStr (base64 (buffer f))),
                               (''filename'', JStr originalName),
                               (''size'', JNum (int fileSize))])])
           in (case sp of
                 SpawnThrows m \<Rightarrow>
                   reply 500 (JObj [(''error'', JStr ''Failed to process document upload''),
                                    (''details'', JStr m)]) st
               | Spawned evs \<Rightarrow>
                   Inr (run (document_listener originalName fileSize) evs
                         (st\<lparr>child := Some (stdin_end (stdin_write userInput
                                 (spawn ''python3'' [PYTHON_SCRIPT_PATH cfg])))\<rparr>)))))"

definition post_upload_document :: "config \<Rightarrow> request \<Rightarrow> spawn_behaviour \<Rightarrow> server_state" where
  "post_upload_document cfg = route documentUpload ''document'' (document_handler cfg)"

subsection \<open>\<^verbatim>\<open>GET /health\<close>\<close>

text \<open>
  The handler reads the clock and answers; \<open>now\<close> is the time value that \<^verbatim>\<open>new Date()\<close>
  reads.  The route has no middleware of its own and the handler keeps no state.
\<close>

definition health_handler :: "nat \<Rightarrow> server_state \<Rightarrow> js_error + server_state" where
  "health_handler now st =
     (case res_json (JObj [(''status'', JStr ''OK''),
                           (''timestamp'', JStr (toISOString now))]) (res st) of
        Inl e \<Rightarrow> Inl e
      | Inr r \<Rightarrow> Inr (st\<lparr>res := r\<rparr>))"

definition get_health :: "nat \<Rightarrow> server_state" where
  "get_health now =
     (case health_handler now initial_state of
        Inl e \<Rightarrow> express_error e initial_state
      | Inr st \<Rightarrow> st)"

section \<open>The earlier router\<close>

text \<open>
  The repository holds a second, earlier copy of the router.  Its \<^verbatim>\<open>/prompt\<close> starts the
  interpreter by its bare name, frames each chunk of output as an event, and does no
  logging before the check of the required fields; its \<^verbatim>\<open>/prompt-audio\<close> passes the payload
  on the command line.
\<close>

fun prompt_legacy_listener :: "event \<Rightarrow> server_state \<Rightarrow> server_state" where
  "prompt_legacy_listener (StdoutData d) st = st\<lparr>res := res_write (chunk_event d) (res st)\<rparr>"
| "prompt_legacy_listener (StderrData d) st = st"
| "prompt_legacy_listener (ChildClose code) st =
     st\<lparr>res := res_end (res_write (complete_event code) (res st)),
        child := map_option kill (child st)\<rparr>"
| "prompt_legacy_listener (ChildError m) st =
     st\<lparr>uncaught := uncaught st @ [UnhandledErrorEvent m]\<rparr>"
| "prompt_legacy_listener ReqClose st = st"

text \<open>\<^verbatim>\<open>!promptInput && images.length === 0 && !audioBuffer\<close>, evaluated from left to right.\<close>

definition required_missing :: "string \<Rightarrow> json \<Rightarrow> upload_file option \<Rightarrow> js_error + bool" where
  "required_missing promptInput images file =
     (if promptInput = []
      then (case js_length images of
              Inl e \<Rightarrow> Inl e
            | Inr images_length \<Rightarrow> Inr (images_length = Some 0 \<and> file = None))
      else Inr False)"

definition legacy_inputs :: "request \<Rightarrow> js_error + string \<times> json \<times> json" where
  "legacy_inputs req =
     (let promptInput = (case body_prompt req of None \<Rightarrow> [] | Some s \<Rightarrow> s) in
     (case parse_field (body_images req) of
        Inl e \<Rightarrow> Inl e
      | Inr images \<Rightarrow>
     (case parse_field (body_messages req) of
        Inl e \<Rightarrow> Inl e
      | Inr messages \<Rightarrow> Inr (promptInput, images, messages))))"

definition prompt_legacy_handler ::
  "config \<Rightarrow> request \<Rightarrow> upload_file option \<Rightarrow> spawn_behaviour \<Rightarrow> server_state \<Rightarrow>
   js_error + server_state" where
  "prompt_legacy_handler cfg req file sp st =
     (case legacy_inputs req of
        Inl e \<Rightarrow> Inl e
      | Inr (promptInput, images, messages) \<Rightarrow>
     (case required_missing promptInput images file of
        Inl e \<Rightarrow> Inl e
      | Inr True \<Rightarrow>
          reply 400 (JObj [(''error'', JStr ''Prompt, images, or audio are required'')]) st
      | Inr False \<Rightarrow>
          (case sse_headers (res st) of
             Inl e \<Rightarrow> Inl e
           | Inr r \<Rightarrow>
               (let userInput = json_stringify (prompt_payload promptInput images messages file)
                in (case sp of
                      SpawnThrows m \<Rightarrow>
                        reply 500 (JObj [(''error'', JStr ''Failed to process prompt'')])
                          (st\<lparr>res := r\<rparr>)
                    | Spawned evs \<Rightarrow>
                        Inr (run prompt_legacy_listener evs
                              (st\<lparr>res := r,
                                  child := Some (stdin_end (stdin_write userInput
                                    (spawn ''python3'' [PYTHON_SCRIPT_PATH cfg])))\<rparr>)))))))"

definition post_prompt_legacy :: "config \<Rightarrow> request \<Rightarrow> spawn_behaviour \<Rightarrow> server_state" where
  "post_prompt_legacy cfg = route upload ''audio'' (prompt_legacy_handler cfg)"

fun prompt_audio_listener :: "event \<Rightarrow> server_state \<Rightarrow> server_state" where
  "prompt_audio_listener (StdoutData d) st = st\<lparr>res := res_write (chunk_event d) (res st)\<rparr>"
| "prompt_audio_listener (StderrData d) st = st"
| "prompt_audio_listener (ChildClose code) st =
     st\<lparr>res := res_end (res_write (complete_event code) (res st))\<rparr>"
| "prompt_audio_listener (ChildError m) st =
     st\<lparr>res := res_end (res_write (error_event m) (res st))\<rparr>"
| "prompt_audio_listener ReqClose st = st\<lparr>child := map_option kill (child st)\<rparr>"

text \<open>\<^verbatim>\<open>s.replace(/"/g, '\\"')\<close>\<close>

definition escape_quotes :: "string \<Rightarrow> string" where
  "escape_quotes s = concat (map (\<lambda>c. if c = CHR 0x22 then [CHR 0x5C, CHR 0x22] else [c]) s)"

definition prompt_audio_payload :: "string \<Rightarrow> json \<Rightarrow> json \<Rightarrow> upload_file option \<Rightarrow> json" where
  "prompt_audio_payload promptInput images messages file =
     JObj [(''prompt'', JStr promptInput), (''images'', images), (''messages'', messages),
           (''audio'', case file of None \<Rightarrow> JNull | Some f \<Rightarrow> JStr (base64 (buffer f)))]"

definition prompt_audio_handler ::
  "config \<Rightarrow> request \<Rightarrow> upload_file option \<Rightarrow> spawn_behaviour \<Rightarrow> server_state \<Rightarrow>
   js_error + server_state" where
  "prompt_audio_handler cfg req file sp st =
     (case legacy_inputs req of
        Inl e \<Rightarrow> Inl e
      | Inr (promptInput, images, messages) \<Rightarrow>
     (case required_missing promptInput images file of
        Inl e \<Rightarrow> Inl e
      | Inr True \<Rightarrow>
          reply 400 (JObj [(''error'', JStr ''Prompt, images, or audio are required'')]) st
      | Inr False \<Rightarrow>
          (case sse_headers (res st) of
             Inl e \<Rightarrow> Inl e
           | Inr r \<Rightarrow>
               (let userInput = escape_quotes
                      (json_stringify (prompt_audio_payload promptInput images messages file))
                in (case sp of
                      SpawnThrows m \<Rightarrow>
                        reply 500 (JObj [(''error'', JStr ''Failed to process audio prompt'')])
                          (st\<lparr>res := r\<rparr>)
                    | Spawned evs \<Rightarrow>
                        Inr (run prompt_audio_listener evs
                              (st\<lparr>res := r,
                                  child := Some
                                    (spawn ''python3''
                                       [PYTHON_SCRIPT_PATH cfg,
                                        [CHR 0x27] @ userInput @ [CHR 0x27]])\<rparr>)))))))"

definition post_prompt_audio :: "config \<Rightarrow> request \<Rightarrow> spawn_behaviour \<Rightarrow> server_state" where
  "post_prompt_audio cfg = route upload ''audio'' (prompt_audio_handler cfg)"

section \<open>Runs of the child process\<close>

text \<open>The chunks of standard output and of standard error in a sequence of events, in order.\<close>

fun stdout_chunks :: "event list \<Rightarrow> string list" where
  "stdout_chunks [] = []"
| "stdout_chunks (StdoutData d # es) = d # stdout_chunks es"
| "stdout_chunks (e # es) = stdout_chunks es"

fun stderr_chunks :: "event list \<Rightarrow> string list" where
  "stderr_chunks [] = []"
| "stderr_chunks (StderrData d # es) = d # stderr_chunks es"
| "stderr_chunks (e # es) = stderr_chunks es"

text \<open>The events that can reach a request while its child is running.\<close>

fun running :: "event \<Rightarrow> bool" where
  "running (ChildClose code) = False"
| "running (ChildError m) = False"
| "running e = True"

text \<open>The head of the response once \<^verbatim>\<open>/prompt\<close> has set its streaming headers.\<close>

definition sse_head :: response where
  "sse_head =
     new_response\<lparr>headers :=
       [(''Content-Type'', ''text/event-stream''), (''Cache-Control'', ''no-cache''),
        (''Connection'', ''keep-alive''), (''Access-Control-Allow-Origin'', ''*'')]\<rparr>"

text \<open>The signals sent to the child of a request, and how the child was started.\<close>

definition signals_sent :: "server_state \<Rightarrow> string list" where
  "signals_sent st = (case child st of None \<Rightarrow> [] | Some p \<Rightarrow> signals p)"

definition launch :: "child_process \<Rightarrow> string \<times> string list \<times> string list \<times> bool" where
  "launch p = (command p, args p, stdin_written p, stdin_ended p)"

text \<open>The response that \<^verbatim>\<open>res.status(code).json(obj)\<close> sends on a fresh response object.\<close>

definition json_reply :: "nat \<Rightarrow> json \<Rightarrow> response" where
  "json_reply code obj =
     \<lparr>statusCode = code, headers = [(''Content-Type'', ''application/json; charset=utf-8'')],
      body = [json_stringify obj], headersSent = True, finished = True\<rparr>"

text \<open>
  A request that never reached its handler: answered by the default error handler, with no
  child process.
\<close>

definition rejected_by_default_handler :: "server_state \<Rightarrow> bool" where
  "rejected_by_default_handler st =
     (child st = None \<and> statusCode (res st) = 500
      \<and> headers (res st) = [(''Content-Type'', ''text/html; charset=utf-8'')]
      \<and> finished (res st))"

text \<open>The numeral of \<open>k\<close> in exactly \<open>w\<close> decimal digits (the last \<open>w\<close> digits of \<open>k\<close>).\<close>

fun pad :: "nat \<Rightarrow> nat \<Rightarrow> string" where
  "pad 0 k = []"
| "pad (Suc w) k = pad w (k div 10) @ [digit k]"

text \<open>Example inputs.\<close>

definition example_config :: config where
  "example_config =
     \<lparr>PYTHON_EXECUTABLE = ''/app/venv_creativemate/bin/python3'',
      PYTHON_SCRIPT_PATH = ''/app/src/python/llmUtils.py''\<rparr>"

definition example_request :: request where
  "example_request =
     \<lparr>body_prompt = Some ''hi'', body_images = Absent, body_messages = Absent, file_part = None\<rparr>"

definition empty_request :: request where
  "empty_request =
     \<lparr>body_prompt = None, body_images = Absent, body_messages = Absent, file_part = None\<rparr>"

definition audio_file :: upload_file where
  "audio_file =
     \<lparr>fieldname = ''audio'', originalname = ''a.wav'', mimetype = ''audio/wav'', buffer = ''abc''\<rparr>"

definition text_file :: upload_file where
  "text_file =
     \<lparr>fieldname = ''document'', originalname = ''a.txt'', mimetype = ''text/plain'', buffer = ''abc''\<rparr>"

definition audio_request :: request where
  "audio_request = empty_request\<lparr>file_part := Some audio_file\<rparr>"

definition text_request :: request where
  "text_request = empty_request\<lparr>file_part := Some text_file\<rparr>"

definition pdf_file :: upload_file where
  "pdf_file =
     \<lparr>fieldname = ''document'', originalname = ''a.pdf'', mimetype = ''application/pdf'',
      buffer = ''%PDF''\<rparr>"

definition pdf_request :: request where
  "pdf_request = empty_request\<lparr>file_part := Some pdf_file\<rparr>"

definition big_audio_file :: upload_file where
  "big_audio_file =
     \<lparr>fieldname = ''audio'', originalname = ''a.wav'', mimetype = ''audio/wav'',
      buffer = replicate (10 * 1024 * 1024 + 1) (CHR ''a'')\<rparr>"

section \<open>Properties\<close>

subsection \<open>Running the listeners\<close>

lemma run_append: "run l (xs @ ys) st = run l ys (run l xs st)"
  by (induction xs arbitrary: st) simp_all

lemma settle_running: "running e \<Longrightarrow> settle e st = st"
  by (cases e) (simp_all add: settle_def)

lemma sse_headers_new: "sse_headers new_response = Inr sse_head"
  by (simp add: sse_headers_def setHeader_def new_response_def sse_head_def)

lemma prompt_running_body:
  "list_all running evs \<Longrightarrow> \<not> finished (res st) \<Longrightarrow>
   body (res (run prompt_listener evs st)) = body (res st) @ stdout_chunks evs
   \<and> \<not> finished (res (run prompt_listener evs st))"
proof (induction evs arbitrary: st)
  case Nil
  then show ?case by simp
next
  case (Cons e es)
  then show ?case
    by (cases e) (simp_all add: settle_def res_write_def)
qed

lemma prompt_head:
  "statusCode (res (run prompt_listener evs st)) = statusCode (res st)
   \<and> headers (res (run prompt_listener evs st)) = headers (res st)"
proof (induction evs arbitrary: st)
  case Nil
  then show ?case by simp
next
  case (Cons e es)
  show ?case
    by (cases e) (simp_all add: Cons.IH settle_def res_write_def res_end_def)
qed

lemma post_prompt_accepted:
  assumes "single upload ''audio'' req = Inr file"
    and "prompt_inputs req = Inr (promptInput, images, messages)"
    and "\<not> (promptInput = [] \<and> js_length images = Inr (Some 0) \<and> file = None)"
  shows "post_prompt cfg req (Spawned evs) =
           run prompt_listener evs
             (initial_state\<lparr>res := sse_head,
                child := Some (stdin_end (stdin_write
                   (json_stringify (prompt_payload promptInput images messages file))
                   (spawn (PYTHON_EXECUTABLE cfg) [PYTHON_SCRIPT_PATH cfg])))\<rparr>)"
  using assms
  by (auto simp add: post_prompt_def route_def prompt_handler_def initial_state_def
      sse_headers_new Let_def)

lemma example_request_accepted:
  "single upload ''audio'' example_request = Inr None"
  "prompt_inputs example_request = Inr (''hi'', JArr [], JArr [])"
  "\<not> (''hi'' = [] \<and> js_length (JArr []) = Inr (Some 0) \<and> (None :: upload_file option) = None)"
  by (simp_all add: single_def example_request_def prompt_inputs_def parse_field_def
      js_length_def)

lemma prompt_run_to_close:
  assumes "single upload ''audio'' req = Inr file"
    and "prompt_inputs req = Inr (promptInput, images, messages)"
    and "\<not> (promptInput = [] \<and> js_length images = Inr (Some 0) \<and> file = None)"
    and "list_all running evs"
  shows "body (res (post_prompt cfg req (Spawned (evs @ [ChildClose code]))))
           = stdout_chunks evs @ [complete_event code]"
    and "finished (res (post_prompt cfg req (Spawned (evs @ [ChildClose code]))))"
    and "statusCode (res (post_prompt cfg req (Spawned (evs @ [ChildClose code])))) = 200"
    and "headers (res (post_prompt cfg req (Spawned (evs @ [ChildClose code]))))
           = headers sse_head"
proof -
  let ?st = "initial_state\<lparr>res := sse_head,
                child := Some (stdin_end (stdin_write
                   (json_stringify (prompt_payload promptInput images messages file))
                   (spawn (PYTHON_EXECUTABLE cfg) [PYTHON_SCRIPT_PATH cfg])))\<rparr>"
  have nf: "\<not> finished (res ?st)" and b0: "body (res ?st) = []"
    by (simp_all add: sse_head_def new_response_def)
  from prompt_running_body[OF assms(4) nf] b0
  have mid: "body (res (run prompt_listener evs ?st)) = stdout_chunks evs"
    "\<not> finished (res (run prompt_listener evs ?st))"
    by simp_all
  have writes: "body (res (run prompt_listener (evs @ [ChildClose code]) ?st))
                  = stdout_chunks evs @ [complete_event code]
                \<and> finished (res (run prompt_listener (evs @ [ChildClose code]) ?st))"
    unfolding run_append using mid by (simp add: settle_def res_write_def res_end_def)
  have head: "statusCode (res (run prompt_listener (evs @ [ChildClose code]) ?st)) = 200
              \<and> headers (res (run prompt_listener (evs @ [ChildClose code]) ?st))
                  = headers sse_head"
    by (simp add: prompt_head sse_head_def new_response_def)
  show "body (res (post_prompt cfg req (Spawned (evs @ [ChildClose code]))))
           = stdout_chunks evs @ [complete_event code]"
    and "finished (res (post_prompt cfg req (Spawned (evs @ [ChildClose code]))))"
    and "statusCode (res (post_prompt cfg req (Spawned (evs @ [ChildClose code])))) = 200"
    and "headers (res (post_prompt cfg req (Spawned (evs @ [ChildClose code]))))
           = headers sse_head"
    unfolding post_prompt_accepted[OF assms(1-3)]
    using writes head by simp_all
qed

subsection \<open>The stream of \<^verbatim>\<open>/prompt\<close>\<close>

text \<open>
  C1, as the code has it.  For a request to \<^verbatim>\<open>POST /prompt\<close> that passes validation and
  whose child runs to its \<^verbatim>\<open>close\<close> event, the response is a 200 event stream whose writes
  are the chunks of the child's standard output, each written as it is (not framed as a
  \<^verbatim>\<open>chunk\<close> event) and in the order of emission, followed by exactly one \<^verbatim>\<open>complete\<close>
  message carrying the exit code; then the response is ended.
\<close>

theorem prompt_stream_raw_chunks:
  assumes "single upload ''audio'' req = Inr file"
    and "prompt_inputs req = Inr (promptInput, images, messages)"
    and "\<not> (promptInput = [] \<and> js_length images = Inr (Some 0) \<and> file = None)"
    and "list_all running evs"
  shows "body (res (post_prompt cfg req (Spawned (evs @ [ChildClose code]))))
           = stdout_chunks evs @ [complete_event code]
       \<and> finished (res (post_prompt cfg req (Spawned (evs @ [ChildClose code]))))
       \<and> statusCode (res (post_prompt cfg req (Spawned (evs @ [ChildClose code])))) = 200
       \<and> getHeader (res (post_prompt cfg req (Spawned (evs @ [ChildClose code]))))
           ''Content-Type'' = Some ''text/event-stream''"
  using prompt_run_to_close[OF assms, of cfg code]
  by (simp add: getHeader_def sse_head_def)

theorem prompt_stream_raw_chunks_witness:
  "body (res (post_prompt example_config example_request
      (Spawned ([StdoutData ''Hel'', StderrData ''warn'', StdoutData ''lo''] @ [ChildClose (Some 0)]))))
     = [''Hel'', ''lo'', complete_event (Some 0)]
   \<and> finished (res (post_prompt example_config example_request
      (Spawned ([StdoutData ''Hel'', StderrData ''warn'', StdoutData ''lo''] @ [ChildClose (Some 0)]))))"
  using prompt_stream_raw_chunks[OF example_request_accepted,
      of "[StdoutData ''Hel'', StderrData ''warn'', StdoutData ''lo'']" example_config "Some 0"]
  by simp

text \<open>
  C1 as stated fails: a chunk of output is not framed as a \<^verbatim>\<open>chunk\<close> event, it is written
  to the response as it is.
\<close>

theorem prompt_chunk_framing_counterexample:
  "body (res (post_prompt example_config example_request
      (Spawned [StdoutData ''Hello'', ChildClose (Some 0)])))
     = [''Hello'', complete_event (Some 0)]
   \<and> ''Hello'' \<noteq> chunk_event ''Hello''"
  unfolding post_prompt_accepted[OF example_request_accepted]
  by (simp add: initial_state_def sse_head_def new_response_def settle_def res_write_def
      res_end_def chunk_event_def sse_data_def)

subsection \<open>Signals to the child of \<^verbatim>\<open>/prompt\<close>\<close>

lemma reply_child: "reply code obj st = Inr st' \<Longrightarrow> child st' = child st"
  by (auto simp add: reply_def split: sum.splits)

lemma express_error_child: "child (express_error e st) = child st"
  by (simp add: express_error_def)

lemma kill_exited: "exited p \<Longrightarrow> kill p = p"
  by (simp add: kill_def)

lemma prompt_listener_signals:
  "signals_sent st = [] \<Longrightarrow> signals_sent (prompt_listener e (settle e st)) = []"
  by (cases e; cases "child st") (simp_all add: signals_sent_def settle_def kill_def)

lemma prompt_run_signals:
  "signals_sent st = [] \<Longrightarrow> signals_sent (run prompt_listener evs st) = []"
proof (induction evs arbitrary: st)
  case Nil
  then show ?case by simp
next
  case (Cons e es)
  then show ?case by (simp add: prompt_listener_signals)
qed

text \<open>
  C4, as the code has it.  \<^verbatim>\<open>POST /prompt\<close> never sends a termination signal to its child:
  the listener for the client's disconnect is commented out, and the only \<^verbatim>\<open>kill()\<close> is in
  the listener of the child's \<^verbatim>\<open>close\<close> event, when the process has already ended.
\<close>

theorem prompt_never_signals: "signals_sent (post_prompt cfg req sp) = []"
proof -
  have started: "signals_sent (run prompt_listener evs
      (initial_state\<lparr>res := r, child := Some (stdin_end (stdin_write u (spawn c a)))\<rparr>)) = []"
    for evs r u c a
    by (rule prompt_run_signals)
      (simp add: signals_sent_def stdin_end_def stdin_write_def spawn_def)
  have kept: "signals_sent st = []" if "child st = child initial_state" for st
    using that by (simp add: signals_sent_def initial_state_def)
  have handler: "signals_sent st = []"
    if "prompt_handler cfg req f sp initial_state = Inr st" for f st
    using that
    by (auto simp add: prompt_handler_def Let_def started kept
        split: sum.splits if_splits spawn_behaviour.splits dest!: reply_child)
  show ?thesis
    by (auto simp add: post_prompt_def route_def express_error_child handler kept
        split: sum.splits)
qed

text \<open>
  C4 as stated fails: the client disconnects while the child is running, and the child is
  neither signalled nor ended.
\<close>

theorem prompt_disconnect_counterexample:
  "map_option (\<lambda>p. (exited p, signals p))
     (child (post_prompt example_config example_request (Spawned [StdoutData ''a'', ReqClose])))
   = Some (False, [])"
  unfolding post_prompt_accepted[OF example_request_accepted]
  by (simp add: initial_state_def settle_def stdin_end_def stdin_write_def spawn_def)

subsection \<open>The required fields of \<^verbatim>\<open>/prompt\<close>\<close>






subsection \<open>The \<^verbatim>\<open>complete\<close> event\<close>

text \<open>
  C8, as the code has it.  The terminal \<^verbatim>\<open>complete\<close> message of a \<^verbatim>\<open>/prompt\<close> stream
  carries a member named \<^verbatim>\<open>code\<close>: the integer exit code when the child ended on its own,
  and \<^verbatim>\<open>null\<close> when the child was ended by a signal.
\<close>

theorem prompt_complete_code:
  assumes "single upload ''audio'' req = Inr file"
    and "prompt_inputs req = Inr (promptInput, images, messages)"
    and "\<not> (promptInput = [] \<and> js_length images = Inr (Some 0) \<and> file = None)"
    and "list_all running evs"
  shows "last (body (res (post_prompt cfg req (Spawned (evs @ [ChildClose code])))))
           = sse_data (JObj [(''type'', JStr ''complete''),
                             (''code'', case code of None \<Rightarrow> JNull | Some c \<Rightarrow> JNum c)])"
  using prompt_run_to_close(1)[OF assms, of cfg code]
  by (simp add: complete_event_def json_code_def)

theorem prompt_complete_code_witness:
  "last (body (res (post_prompt example_config example_request
      (Spawned ([StdoutData ''Hello''] @ [ChildClose (Some 1)])))))
     = sse_data (JObj [(''type'', JStr ''complete''), (''code'', JNum 1)])"
  using prompt_complete_code[OF example_request_accepted, of "[StdoutData ''Hello'']"
      example_config "Some 1"]
  by simp

text \<open>C8 as stated fails: the child is ended by a signal, and the member is \<^verbatim>\<open>null\<close>.\<close>

theorem prompt_complete_code_counterexample:
  "body (res (post_prompt example_config example_request (Spawned [ChildClose None])))
     = [sse_data (JObj [(''type'', JStr ''complete''), (''code'', JNull)])]"
  unfolding post_prompt_accepted[OF example_request_accepted]
  by (simp add: initial_state_def sse_head_def new_response_def settle_def res_write_def
      res_end_def complete_event_def json_code_def)

subsection \<open>\<^verbatim>\<open>/transcribe-audio\<close> and \<^verbatim>\<open>/upload-document\<close>\<close>

lemma post_transcribe_accepted:
  assumes "single audioUpload ''audio'' req = Inr (Some f)"
  shows "post_transcribe_audio cfg req (Spawned evs) =
           run transcribe_listener evs
             (initial_state\<lparr>child := Some (stdin_end (stdin_write
                 (json_stringify (JObj [(''audio_to_transcribe'', JStr (base64 (buffer f)))]))
                 (spawn ''python3'' [PYTHON_SCRIPT_PATH cfg])))\<rparr>)"
  using assms
  by (simp add: post_transcribe_audio_def route_def transcribe_handler_def Let_def)

lemma transcribe_running:
  "list_all running evs \<Longrightarrow>
   run transcribe_listener evs st =
     st\<lparr>stdout_output := stdout_output st @ concat (stdout_chunks evs),
        errorOutput := errorOutput st @ concat (stderr_chunks evs)\<rparr>"
proof (induction evs arbitrary: st)
  case Nil
  then show ?case by simp
next
  case (Cons e es)
  then show ?case
    by (cases e) (simp_all add: settle_def)
qed

lemma reply_in_listener_new:
  "res st = new_response \<Longrightarrow>
   reply_in_listener code obj st = st\<lparr>res := json_reply code obj\<rparr>"
  by (simp add: reply_in_listener_def reply_def res_json_def res_status_def getHeader_def
      setHeader_def res_end_def res_write_def json_reply_def new_response_def)

lemma json_in_listener_new:
  "res st = new_response \<Longrightarrow> json_in_listener obj st = st\<lparr>res := json_reply 200 obj\<rparr>"
  by (simp add: json_in_listener_def res_json_def getHeader_def setHeader_def res_end_def
      res_write_def json_reply_def new_response_def)

lemma reply_in_listener_sent:
  "headersSent (res st) \<Longrightarrow>
   reply_in_listener code obj st = st\<lparr>uncaught := uncaught st @ [ERR_HTTP_HEADERS_SENT]\<rparr>"
  by (simp add: reply_in_listener_def reply_def res_json_def res_status_def setHeader_def)

lemma post_document_accepted:
  assumes "single documentUpload ''document'' req = Inr (Some f)"
  shows "post_upload_document cfg req (Spawned evs) =
           run (document_listener (originalname f) (length (buffer f))) evs
             (initial_state\<lparr>child := Some (stdin_end (stdin_write
                 (json_stringify
                   (JObj [(''document_to_ingest'',
                           JObj [(''content'', JStr (base64 (buffer f))),
                                 (''filename'', JStr (originalname f)),
                                 (''size'', JNum (int (length (buffer f))))])]))
                 (spawn ''python3'' [PYTHON_SCRIPT_PATH cfg])))\<rparr>)"
  using assms
  by (simp add: post_upload_document_def route_def document_handler_def Let_def)

lemma audio_request_accepted: "single audioUpload ''audio'' audio_request = Inr (Some audio_file)"
  by (simp add: single_def audioUpload_def audio_request_def empty_request_def audio_file_def)

lemma pdf_request_accepted: "single documentUpload ''document'' pdf_request = Inr (Some pdf_file)"
  by (simp add: single_def documentUpload_def pdf_request_def empty_request_def pdf_file_def)

subsection \<open>Uploads refused by the middleware\<close>

lemma route_rejected:
  "single opts name req = Inl e \<Longrightarrow>
   route opts name handler req sp = express_error e initial_state"
  by (simp add: route_def)

lemma express_error_initial:
  "child (express_error e initial_state) = None"
  "statusCode (res (express_error e initial_state)) = 500"
  "headers (res (express_error e initial_state)) = [(''Content-Type'', ''text/html; charset=utf-8'')]"
  "finished (res (express_error e initial_state))"
  by (simp_all add: express_error_def initial_state_def new_response_def res_end_def
      res_write_def)

lemma document_rejected:
  assumes "file_part req = Some f"
    and "mimetype f \<noteq> ''application/pdf'' \<or> length (buffer f) > 20 * 1024 * 1024"
  shows "\<exists>e. single documentUpload ''document'' req = Inl e"
  using assms by (auto simp add: single_def documentUpload_def)

lemma audio_rejected:
  assumes "file_part req = Some f"
    and "length (buffer f) > 10 * 1024 * 1024"
  shows "\<exists>e. single audioUpload ''audio'' req = Inl e"
    and "\<exists>e. single upload ''audio'' req = Inl e"
  using assms by (auto simp add: single_def audioUpload_def upload_def)

text \<open>
  C2, as the code has it.  A document that is not declared \<^verbatim>\<open>application/pdf\<close> or is longer
  than 20 MiB, and an audio file longer than 10 MiB, are refused by the upload middleware
  before the handler runs: no child process is spawned, and the request is answered by the
  default error handler with status 500 and an HTML body.
\<close>

theorem upload_rejected_before_spawn:
  assumes "file_part req = Some f"
  shows "(mimetype f \<noteq> ''application/pdf'' \<or> length (buffer f) > 20 * 1024 * 1024
            \<longrightarrow> rejected_by_default_handler (post_upload_document cfg req sp))
       \<and> (length (buffer f) > 10 * 1024 * 1024
            \<longrightarrow> rejected_by_default_handler (post_transcribe_audio cfg req sp)
              \<and> rejected_by_default_handler (post_prompt cfg req sp))"
proof (intro conjI impI)
  assume "mimetype f \<noteq> ''application/pdf'' \<or> length (buffer f) > 20 * 1024 * 1024"
  from document_rejected[OF assms this] obtain e
    where "single documentUpload ''document'' req = Inl e" ..
  then show "rejected_by_default_handler (post_upload_document cfg req sp)"
    by (simp add: post_upload_document_def route_rejected rejected_by_default_handler_def
        express_error_initial)
next
  assume big: "length (buffer f) > 10 * 1024 * 1024"
  from audio_rejected(1)[OF assms big] obtain e
    where "single audioUpload ''audio'' req = Inl e" ..
  then show "rejected_by_default_handler (post_transcribe_audio cfg req sp)"
    by (simp add: post_transcribe_audio_def route_rejected rejected_by_default_handler_def
        express_error_initial)
  from audio_rejected(2)[OF assms big] obtain e
    where "single upload ''audio'' req = Inl e" ..
  then show "rejected_by_default_handler (post_prompt cfg req sp)"
    by (simp add: post_prompt_def route_rejected rejected_by_default_handler_def
        express_error_initial)
qed

theorem upload_rejected_before_spawn_witness:
  "rejected_by_default_handler
     (post_upload_document example_config text_request (Spawned [ChildClose (Some 0)]))
   \<and> rejected_by_default_handler
     (post_transcribe_audio example_config (empty_request\<lparr>file_part := Some big_audio_file\<rparr>)
        (Spawned [ChildClose (Some 0)]))"
  using upload_rejected_before_spawn[of text_request text_file example_config
      "Spawned [ChildClose (Some 0)]"]
    upload_rejected_before_spawn[of "empty_request\<lparr>file_part := Some big_audio_file\<rparr>"
      big_audio_file example_config "Spawned [ChildClose (Some 0)]"]
  by (simp add: text_request_def empty_request_def text_file_def big_audio_file_def)

text \<open>C2 as stated fails: the refusal is a 500 with an HTML body, not a 4xx JSON error.\<close>

theorem upload_rejected_status_counterexample:
  "statusCode (res (post_upload_document example_config text_request (Spawned []))) = 500
   \<and> body (res (post_upload_document example_config text_request (Spawned [])))
       = [''Only PDF files are allowed'']
   \<and> getHeader (res (post_upload_document example_config text_request (Spawned [])))
       ''Content-Type'' = Some ''text/html; charset=utf-8''"
  by (simp add: post_upload_document_def route_def single_def documentUpload_def
      text_request_def empty_request_def text_file_def express_error_def initial_state_def
      new_response_def res_end_def res_write_def getHeader_def error_message_def)

subsection \<open>How the child is started\<close>

lemma settle_launch: "map_option launch (child (settle e st)) = map_option launch (child st)"
  by (cases e; cases "child st") (simp_all add: settle_def launch_def)

lemma kill_launch: "launch (kill p) = launch p"
  by (simp add: kill_def launch_def)

lemma reply_in_listener_child: "child (reply_in_listener code obj st) = child st"
  by (auto simp add: reply_in_listener_def split: sum.splits dest: reply_child)

lemma json_in_listener_child: "child (json_in_listener obj st) = child st"
  by (simp add: json_in_listener_def split: sum.splits)

lemma run_launch:
  assumes "\<And>e st. map_option launch (child (l e st)) = map_option launch (child st)"
  shows "map_option launch (child (run l evs st)) = map_option launch (child st)"
proof (induction evs arbitrary: st)
  case Nil
  show ?case by simp
next
  case (Cons e es)
  show ?case by (simp add: Cons.IH assms settle_launch)
qed

lemma prompt_listener_launch:
  "map_option launch (child (prompt_listener e st)) = map_option launch (child st)"
  by (cases e; cases "child st") (simp_all add: kill_launch)

lemma transcribe_listener_launch:
  "map_option launch (child (transcribe_listener e st)) = map_option launch (child st)"
  by (cases e) (simp_all add: reply_in_listener_child json_in_listener_child)

lemma document_listener_launch:
  "map_option launch (child (document_listener n z e st)) = map_option launch (child st)"
  by (cases e) (simp_all add: reply_in_listener_child json_in_listener_child)

lemma post_prompt_audio_accepted:
  assumes "single upload ''audio'' req = Inr file"
    and "legacy_inputs req = Inr (promptInput, images, messages)"
    and "required_missing promptInput images file = Inr False"
  shows "post_prompt_audio cfg req (Spawned evs) =
           run prompt_audio_listener evs
             (initial_state\<lparr>res := sse_head,
                child := Some (spawn ''python3''
                   [PYTHON_SCRIPT_PATH cfg,
                    [CHR 0x27] @ escape_quotes (json_stringify
                       (prompt_audio_payload promptInput images messages file)) @ [CHR 0x27]])\<rparr>)"
  using assms
  by (auto simp add: post_prompt_audio_def route_def prompt_audio_handler_def initial_state_def
      sse_headers_new Let_def)

lemma example_request_legacy:
  "legacy_inputs example_request = Inr (''hi'', JArr [], JArr [])"
  "required_missing ''hi'' (JArr []) None = Inr False"
  by (simp_all add: legacy_inputs_def example_request_def parse_field_def required_missing_def)

text \<open>
  C6 at failing inputs: \<^verbatim>\<open>/transcribe-audio\<close> and \<^verbatim>\<open>/upload-document\<close> start the bare
  \<^verbatim>\<open>python3\<close>, not the resolved executable that \<^verbatim>\<open>/prompt\<close> starts, and the earlier
  \<^verbatim>\<open>/prompt-audio\<close> passes the payload as a second command-line argument and writes nothing
  to standard input.
\<close>

theorem spawn_differs_between_endpoints:
  "map_option command (child (post_transcribe_audio example_config audio_request (Spawned [])))
     = Some ''python3''
   \<and> map_option command (child (post_upload_document example_config pdf_request (Spawned [])))
     = Some ''python3''
   \<and> PYTHON_EXECUTABLE example_config \<noteq> ''python3''
   \<and> map_option (\<lambda>p. (args p, stdin_written p, stdin_ended p))
       (child (post_prompt_audio example_config example_request (Spawned [])))
     = Some ([''/app/src/python/llmUtils.py'',
              [CHR 0x27] @ escape_quotes (json_stringify
                 (prompt_audio_payload ''hi'' (JArr []) (JArr []) None)) @ [CHR 0x27]],
             [], False)"
  unfolding post_transcribe_accepted[OF audio_request_accepted]
    post_document_accepted[OF pdf_request_accepted]
    post_prompt_audio_accepted[OF example_request_accepted(1) example_request_legacy]
  by (simp add: initial_state_def stdin_end_def stdin_write_def spawn_def example_config_def)

text \<open>
  What does hold of the three routes of the router: the payload is written whole to the
  child's standard input, which is then closed, and the script path is the only argument.
\<close>

theorem payload_written_to_stdin:
  "(single upload ''audio'' req = Inr audio
      \<and> prompt_inputs req = Inr (promptInput, images, messages)
      \<and> \<not> (promptInput = [] \<and> js_length images = Inr (Some 0) \<and> audio = None)
    \<longrightarrow> map_option launch (child (post_prompt cfg req (Spawned evs)))
          = Some (PYTHON_EXECUTABLE cfg, [PYTHON_SCRIPT_PATH cfg],
                  [json_stringify (prompt_payload promptInput images messages audio)], True))
   \<and> (single audioUpload ''audio'' req = Inr (Some f)
    \<longrightarrow> map_option launch (child (post_transcribe_audio cfg req (Spawned evs)))
          = Some (''python3'', [PYTHON_SCRIPT_PATH cfg],
                  [json_stringify (JObj [(''audio_to_transcribe'', JStr (base64 (buffer f)))])],
                  True))
   \<and> (single documentUpload ''document'' req = Inr (Some f)
    \<longrightarrow> map_option launch (child (post_upload_document cfg req (Spawned evs)))
          = Some (''python3'', [PYTHON_SCRIPT_PATH cfg],
                  [json_stringify
                     (JObj [(''document_to_ingest'',
                             JObj [(''content'', JStr (base64 (buffer f))),
                                   (''filename'', JStr (originalname f)),
                                   (''size'', JNum (int (length (buffer f))))])])],
                  True))"
  by (auto simp add: post_prompt_accepted post_transcribe_accepted post_document_accepted
      run_launch prompt_listener_launch transcribe_listener_launch document_listener_launch
      launch_def stdin_end_def stdin_write_def spawn_def)

theorem payload_written_to_stdin_witness:
  "map_option launch (child (post_prompt example_config example_request
      (Spawned [StdoutData ''x'', ChildClose (Some 0)])))
     = Some (''/app/venv_creativemate/bin/python3'', [''/app/src/python/llmUtils.py''],
             [json_stringify (prompt_payload ''hi'' (JArr []) (JArr []) None)], True)
   \<and> map_option launch (child (post_transcribe_audio example_config audio_request
      (Spawned [StdoutData ''x'', ChildClose (Some 0)])))
     = Some (''python3'', [''/app/src/python/llmUtils.py''],
             [json_stringify (JObj [(''audio_to_transcribe'', JStr ''YWJj'')])], True)"
  using payload_written_to_stdin[where req = example_request and audio = None
      and promptInput = "''hi''" and images = "JArr []" and messages = "JArr []"
      and cfg = example_config and evs = "[StdoutData ''x'', ChildClose (Some 0)]"
      and f = audio_file]
    payload_written_to_stdin[where req = audio_request and audio = None
      and promptInput = "''hi''" and images = "JArr []" and messages = "JArr []"
      and cfg = example_config and evs = "[StdoutData ''x'', ChildClose (Some 0)]"
      and f = audio_file]
  by (simp add: example_request_accepted audio_request_accepted example_config_def
      audio_file_def base64_def b64_char_def)

subsection \<open>The timestamp of \<^verbatim>\<open>/health\<close>\<close>

lemma digit_code: "of_char (digit a) = (48 + a mod 10 :: nat)"
proof -
  have "a mod 10 < 10" by simp
  then have "a mod 10 \<in> {0, 1, 2, 3, 4, 5, 6, 7, 8, 9}" by (simp, arith)
  then show ?thesis
    by (elim insertE emptyE) (simp_all add: digit_def)
qed

lemma digit_less: "a < 10 \<Longrightarrow> b < 10 \<Longrightarrow> (digit a < digit b) = (a < b)"
  by (simp add: less_char_def digit_code)

lemma digit_eq: "a < 10 \<Longrightarrow> b < 10 \<Longrightarrow> (digit a = digit b) = (a = b)"
proof
  assume "a < 10" "b < 10" "digit a = digit b"
  then have "(of_char (digit a) :: nat) = of_char (digit b)" by simp
  with \<open>a < 10\<close> \<open>b < 10\<close> show "a = b" by (simp add: digit_code)
qed simp

lemma digit_mod: "digit (k mod 10) = digit k"
  by (simp add: digit_def)

lemma length_pad: "length (pad w k) = w"
  by (induction w arbitrary: k) simp_all

lemma pad_zero: "pad w 0 = replicate w (CHR ''0'')"
  by (induction w) (simp_all add: digit_def replicate_append_same)

lemma padStart_pad: "0 < w \<Longrightarrow> k < 10 ^ w \<Longrightarrow> padStart w (string_of_nat k) = pad w k"
proof (induction w arbitrary: k)
  case 0
  then show ?case by simp
next
  case (Suc w)
  show ?case
  proof (cases "k < 10")
    case True
    then show ?thesis
      by (simp add: string_of_nat.simps[of k] padStart_def pad_zero)
  next
    case False
    then have w: "0 < w" using Suc.prems(2) by (cases w) simp_all
    have "k div 10 < 10 ^ w" using Suc.prems(2) by (simp add: less_mult_imp_div_less mult.commute)
    from Suc.IH[OF w this] have ih: "padStart w (string_of_nat (k div 10)) = pad w (k div 10)" .
    have len: "length (string_of_nat (k div 10)) \<le> w"
      using ih length_pad[of w "k div 10"] by (metis padStart_def length_append le_add2)
    show ?thesis
      using False ih len
      by (simp add: string_of_nat.simps[of k] padStart_def Suc_diff_le)
  qed
qed

lemma append_less_iff:
  fixes a b :: "'a::linorder list"
  shows "length a = length b \<Longrightarrow> (a @ x < b @ y) = (a < b \<or> a = b \<and> x < y)"
  by (induction a b rule: list_induct2) auto

lemma append_le_iff:
  fixes a b :: "'a::linorder list"
  shows "length a = length b \<Longrightarrow> (a @ x \<le> b @ y) = (a < b \<or> a = b \<and> x \<le> y)"
  by (induction a b rule: list_induct2) auto

lemma lex_less_iff:
  fixes a b c d n :: nat
  assumes "b < n" "d < n"
  shows "(a * n + b < c * n + d) = (a < c \<or> a = c \<and> b < d)"
proof (cases a c rule: linorder_cases)
  case less
  then have "Suc a * n \<le> c * n" by (intro mult_le_mono1) simp
  with assms less show ?thesis by simp
next
  case equal
  then show ?thesis by simp
next
  case greater
  then have "Suc c * n \<le> a * n" by (intro mult_le_mono1) simp
  with assms greater show ?thesis by simp
qed

lemma div_mod_less_iff:
  fixes j k n :: nat
  assumes "0 < n"
  shows "(j < k) = (j div n < k div n \<or> j div n = k div n \<and> j mod n < k mod n)"
proof -
  have "(j div n * n + j mod n < k div n * n + k mod n)
          = (j div n < k div n \<or> j div n = k div n \<and> j mod n < k mod n)"
    using assms by (intro lex_less_iff) simp_all
  then show ?thesis by simp
qed

lemma pad_less_iff: "j < 10 ^ w \<Longrightarrow> k < 10 ^ w \<Longrightarrow> (pad w j < pad w k) = (j < k)"
proof (induction w arbitrary: j k)
  case 0
  then show ?case by simp
next
  case (Suc w)
  have j: "j div 10 < 10 ^ w" and k: "k div 10 < 10 ^ w"
    using Suc.prems by (simp_all add: less_mult_imp_div_less mult.commute)
  have eq: "(pad w (j div 10) = pad w (k div 10)) = (j div 10 = k div 10)"
    using Suc.IH[OF j k] Suc.IH[OF k j] by (metis less_irrefl linorder_neqE_nat)
  have d: "(digit j < digit k) = (j mod 10 < k mod 10)"
    using digit_less[of "j mod 10" "k mod 10"] by (simp add: digit_mod)
  show ?case
    by (simp add: append_less_iff length_pad Suc.IH[OF j k] eq d div_mod_less_iff[of 10 j k])
qed

lemma pad_eq_iff: "j < 10 ^ w \<Longrightarrow> k < 10 ^ w \<Longrightarrow> (pad w j = pad w k) = (j = k)"
  using pad_less_iff[of j w k] pad_less_iff[of k w j]
  by (metis less_irrefl linorder_neqE_nat)


lemma year_from_days_ge: "y \<le> fst (year_from_days y d)"
proof (induction y d rule: year_from_days.induct)
  case (1 y d)
  then show ?case
    by (cases "d < days_in_year y") (auto simp add: year_from_days.simps[of y d])
qed

lemma year_from_days_less:
  "d1 < d2 \<Longrightarrow>
   fst (year_from_days y d1) < fst (year_from_days y d2)
   \<or> fst (year_from_days y d1) = fst (year_from_days y d2)
     \<and> snd (year_from_days y d1) < snd (year_from_days y d2)"
proof (induction y d1 arbitrary: d2 rule: year_from_days.induct)
  case (1 y d1)
  show ?case
  proof (cases "d1 < days_in_year y")
    case True
    show ?thesis
    proof (cases "d2 < days_in_year y")
      case d2: True
      with True "1.prems" show ?thesis
        by (simp add: year_from_days.simps[of y d1] year_from_days.simps[of y d2])
    next
      case False
      have "Suc y \<le> fst (year_from_days (Suc y) (d2 - days_in_year y))"
        by (rule year_from_days_ge)
      with True False show ?thesis
        by (simp add: year_from_days.simps[of y d1] year_from_days.simps[of y d2])
    qed
  next
    case False
    with "1.prems" have d2: "\<not> d2 < days_in_year y" and
      less: "d1 - days_in_year y < d2 - days_in_year y"
      by simp_all
    from "1.IH"[OF False less] False d2 show ?thesis
      by (simp add: year_from_days.simps[of y d1] year_from_days.simps[of y d2])
  qed
qed

lemma year_from_days_range: "snd (year_from_days y d) < days_in_year (fst (year_from_days y d))"
proof (induction y d rule: year_from_days.induct)
  case (1 y d)
  then show ?case
    by (cases "d < days_in_year y") (auto simp add: year_from_days.simps[of y d])
qed

lemma month_from_days_less:
  "d1 < d2 \<Longrightarrow>
   fst (month_from_days ms d1) < fst (month_from_days ms d2)
   \<or> fst (month_from_days ms d1) = fst (month_from_days ms d2)
     \<and> snd (month_from_days ms d1) < snd (month_from_days ms d2)"
proof (induction ms arbitrary: d1 d2)
  case Nil
  then show ?case by simp
next
  case (Cons m ms)
  show ?case
  proof (cases "d1 < m")
    case True
    with Cons.prems show ?thesis
      by (cases "d2 < m") (simp_all add: case_prod_beta)
  next
    case False
    with Cons.prems have d2: "\<not> d2 < m" and less: "d1 - m < d2 - m" by simp_all
    from Cons.IH[OF less] False d2 show ?thesis
      by (simp add: case_prod_beta)
  qed
qed

lemma month_from_days_range:
  "d < sum_list ms \<Longrightarrow>
   fst (month_from_days ms d) < length ms
   \<and> snd (month_from_days ms d) < ms ! fst (month_from_days ms d)"
proof (induction ms arbitrary: d)
  case Nil
  then show ?case by simp
next
  case (Cons m ms)
  show ?case
  proof (cases "d < m")
    case True
    then show ?thesis by simp
  next
    case False
    with Cons.prems have "d - m < sum_list ms" by simp
    from Cons.IH[OF this] False show ?thesis
      by (simp add: case_prod_beta)
  qed
qed

lemma sum_month_lengths: "sum_list (month_lengths y) = days_in_year y"
  by (simp add: month_lengths_def days_in_year_def)

lemma month_lengths_bound: "k < length (month_lengths y) \<Longrightarrow> month_lengths y ! k \<le> 31"
proof -
  have "\<forall>x \<in> set (month_lengths y). x \<le> 31"
    by (simp add: month_lengths_def)
  then show "k < length (month_lengths y) \<Longrightarrow> month_lengths y ! k \<le> 31"
    by simp
qed

lemma month_in_year:
  assumes "year_from_days 1970 day = (y, yd)" and "month_from_days (month_lengths y) yd = (m, md)"
  shows "m < 12" and "md < 31"
proof -
  have "yd < days_in_year y"
    using year_from_days_range[of 1970 day] assms(1) by simp
  then have "yd < sum_list (month_lengths y)" by (simp add: sum_month_lengths)
  from month_from_days_range[OF this] assms(2)
  have m: "m < length (month_lengths y)" and md: "md < month_lengths y ! m" by simp_all
  from m show "m < 12" by (simp add: month_lengths_def)
  from md month_lengths_bound[OF m] show "md < 31" by simp
qed


lemma pad_le_iff: "j < 10 ^ w \<Longrightarrow> k < 10 ^ w \<Longrightarrow> (pad w j \<le> pad w k) = (j \<le> k)"
  using pad_less_iff[of j w k] pad_eq_iff[of j w k]
  by (auto simp add: le_less)

lemma iso_date_pad:
  assumes "year_from_days 1970 day = (y, yd)"
    and "month_from_days (month_lengths y) yd = (m, md)"
    and "y \<le> 9999"
  shows "iso_date day = pad 4 y @ ''-'' @ pad 2 (Suc m) @ ''-'' @ pad 2 (Suc md)"
proof -
  from month_in_year[OF assms(1,2)] have "Suc m < 10 ^ 2" "Suc md < 10 ^ 2" by simp_all
  moreover from assms(3) have "y < 10 ^ 4" by simp
  ultimately show ?thesis
    using assms by (simp add: iso_date_def padStart_pad)
qed

lemma iso_date_less:
  assumes "d1 < d2" and "fst (year_from_days 1970 d2) \<le> 9999"
  shows "iso_date d1 < iso_date d2" and "length (iso_date d1) = length (iso_date d2)"
proof -
  obtain y1 yd1 where y1: "year_from_days 1970 d1 = (y1, yd1)" by (cases "year_from_days 1970 d1")
  obtain y2 yd2 where y2: "year_from_days 1970 d2 = (y2, yd2)" by (cases "year_from_days 1970 d2")
  obtain m1 md1 where m1: "month_from_days (month_lengths y1) yd1 = (m1, md1)"
    by (cases "month_from_days (month_lengths y1) yd1")
  obtain m2 md2 where m2: "month_from_days (month_lengths y2) yd2 = (m2, md2)"
    by (cases "month_from_days (month_lengths y2) yd2")
  from year_from_days_less[OF assms(1), of 1970] y1 y2
  have years: "y1 < y2 \<or> y1 = y2 \<and> yd1 < yd2" by simp
  from assms(2) y2 have b2: "y2 \<le> 9999" by simp
  with years have b1: "y1 \<le> 9999" by auto
  have bounds: "y1 < 10 ^ 4" "y2 < 10 ^ 4" "Suc m1 < 10 ^ 2" "Suc m2 < 10 ^ 2"
    "Suc md1 < 10 ^ 2" "Suc md2 < 10 ^ 2"
    using b1 b2 month_in_year[OF y1 m1] month_in_year[OF y2 m2] by simp_all
  have s1: "iso_date d1 = pad 4 y1 @ ''-'' @ pad 2 (Suc m1) @ ''-'' @ pad 2 (Suc md1)"
    by (rule iso_date_pad[OF y1 m1 b1])
  have s2: "iso_date d2 = pad 4 y2 @ ''-'' @ pad 2 (Suc m2) @ ''-'' @ pad 2 (Suc md2)"
    by (rule iso_date_pad[OF y2 m2 b2])
  show "length (iso_date d1) = length (iso_date d2)"
    by (simp add: s1 s2 length_pad)
  show "iso_date d1 < iso_date d2"
  proof (cases "y1 < y2")
    case True
    then show ?thesis
      using bounds by (simp add: s1 s2 append_less_iff length_pad pad_less_iff)
  next
    case False
    with years have same: "y1 = y2" and "yd1 < yd2" by simp_all
    from month_from_days_less[OF this(2), of "month_lengths y2"] m1 m2 same
    have "m1 < m2 \<or> m1 = m2 \<and> md1 < md2" by simp
    then show ?thesis
      using bounds by (auto simp add: s1 s2 same append_less_iff length_pad pad_less_iff pad_eq_iff)
  qed
qed

lemma time_fields_le:
  fixes t1 t2 :: nat
  assumes "t1 \<le> t2" and "t1 div 1000 div 60 div 60 div 24 = t2 div 1000 div 60 div 60 div 24"
  shows 
    "t1 div 1000 div 60 div 60 mod 24 < t2 div 1000 div 60 div 60 mod 24
     \<or> t1 div 1000 div 60 div 60 mod 24 = t2 div 1000 div 60 div 60 mod 24
       \<and> (t1 div 1000 div 60 mod 60 < t2 div 1000 div 60 mod 60
         \<or> t1 div 1000 div 60 mod 60 = t2 div 1000 div 60 mod 60
           \<and> (t1 div 1000 mod 60 < t2 div 1000 mod 60
             \<or> t1 div 1000 mod 60 = t2 div 1000 mod 60 \<and> t1 mod 1000 \<le> t2 mod 1000))"
proof (cases "t1 = t2")
  case True
  then show ?thesis by simp
next
  case False
  with assms(1) have less: "t1 < t2" by simp
  define S1 S2 where "S1 = t1 div 1000" and "S2 = t2 div 1000"
  define M1 M2 where "M1 = S1 div 60" and "M2 = S2 div 60"
  define H1 H2 where "H1 = M1 div 60" and "H2 = M2 div 60"
  have day: "H1 div 24 = H2 div 24"
    using assms(2) by (simp add: H1_def H2_def M1_def M2_def S1_def S2_def)
  have f0: "S1 < S2 \<or> S1 = S2 \<and> t1 mod 1000 < t2 mod 1000"
    using div_mod_less_iff[of 1000 t1 t2] less by (simp add: S1_def S2_def)
  have f1: "S1 < S2 \<Longrightarrow> M1 < M2 \<or> M1 = M2 \<and> S1 mod 60 < S2 mod 60"
    using div_mod_less_iff[of 60 S1 S2] by (simp add: M1_def M2_def)
  have f2: "M1 < M2 \<Longrightarrow> H1 < H2 \<or> H1 = H2 \<and> M1 mod 60 < M2 mod 60"
    using div_mod_less_iff[of 60 M1 M2] by (simp add: H1_def H2_def)
  have f3: "H1 < H2 \<Longrightarrow> H1 mod 24 < H2 mod 24"
    using div_mod_less_iff[of 24 H1 H2] day by simp
  have e1: "S1 = S2 \<Longrightarrow> M1 = M2" by (simp add: M1_def M2_def)
  have e2: "M1 = M2 \<Longrightarrow> H1 = H2" by (simp add: H1_def H2_def)
  have goal: "H1 mod 24 < H2 mod 24
     \<or> H1 mod 24 = H2 mod 24
       \<and> (M1 mod 60 < M2 mod 60
         \<or> M1 mod 60 = M2 mod 60
           \<and> (S1 mod 60 < S2 mod 60
             \<or> S1 mod 60 = S2 mod 60 \<and> t1 mod 1000 \<le> t2 mod 1000))"
    using f0 f1 f2 f3 e1 e2 by (metis less_imp_le)
  then show ?thesis
    by (simp add: H1_def H2_def M1_def M2_def S1_def S2_def)
qed

lemma iso_time_pad:
  "iso_time t = pad 2 (t div 1000 div 60 div 60 mod 24) @ '':''
     @ pad 2 (t div 1000 div 60 mod 60) @ '':'' @ pad 2 (t div 1000 mod 60) @ ''.''
     @ pad 3 (t mod 1000)"
proof -
  have "t div 3600000 = t div 1000 div 60 div 60" "t div 60000 = t div 1000 div 60"
    by (simp_all add: div_mult2_eq[symmetric])
  moreover have "t div 1000 div 60 div 60 mod 24 < 10 ^ 2" "t div 1000 div 60 mod 60 < 10 ^ 2"
    "t div 1000 mod 60 < 10 ^ 2" "t mod 1000 < 10 ^ 3"
    by (simp_all add: less_trans[OF mod_less_divisor])
  ultimately show ?thesis
    by (simp add: iso_time_def padStart_pad)
qed

lemma field_le:
  assumes "j < 10 ^ w" "k < 10 ^ w"
  shows "(pad w j @ c # x \<le> pad w k @ c # y) = (j < k \<or> j = k \<and> x \<le> y)"
  using assms by (simp add: append_le_iff length_pad pad_less_iff pad_eq_iff)

lemma field_less:
  assumes "j < 10 ^ w" "k < 10 ^ w"
  shows "(pad w j @ c # x < pad w k @ c # y) = (j < k \<or> j = k \<and> x < y)"
  using assms by (simp add: append_less_iff length_pad pad_less_iff pad_eq_iff)

lemma iso_time_fields:
  "iso_time t = pad 2 (t div 1000 div 60 div 60 mod 24) @ CHR '':''
     # pad 2 (t div 1000 div 60 mod 60) @ CHR '':'' # pad 2 (t div 1000 mod 60) @ CHR ''.''
     # pad 3 (t mod 1000)"
  by (simp add: iso_time_pad)

lemma iso_time_le_iff:
  "(iso_time t1 \<le> iso_time t2) =
    (t1 div 1000 div 60 div 60 mod 24 < t2 div 1000 div 60 div 60 mod 24
     \<or> t1 div 1000 div 60 div 60 mod 24 = t2 div 1000 div 60 div 60 mod 24
       \<and> (t1 div 1000 div 60 mod 60 < t2 div 1000 div 60 mod 60
         \<or> t1 div 1000 div 60 mod 60 = t2 div 1000 div 60 mod 60
           \<and> (t1 div 1000 mod 60 < t2 div 1000 mod 60
             \<or> t1 div 1000 mod 60 = t2 div 1000 mod 60 \<and> t1 mod 1000 \<le> t2 mod 1000)))"
proof -
  have b: "n mod 24 < 10 ^ 2" "n mod 60 < 10 ^ 2" "n mod 1000 < 10 ^ 3" for n :: nat
    by (simp_all add: less_trans[OF mod_less_divisor])
  show ?thesis
    unfolding iso_time_fields
    by (simp only: field_le[OF b(1) b(1)] field_le[OF b(2) b(2)] pad_le_iff[OF b(3) b(3)])
qed

lemma iso_time_le:
  assumes "t1 \<le> t2" and "t1 div 86400000 = t2 div 86400000"
  shows "iso_time t1 \<le> iso_time t2" and "length (iso_time t1) = length (iso_time t2)"
proof -
  have day: "t div 86400000 = t div 1000 div 60 div 60 div 24" for t :: nat
    by (simp add: div_mult2_eq[symmetric])
  show "length (iso_time t1) = length (iso_time t2)"
    by (simp add: iso_time_pad length_pad)
  have "t1 div 1000 div 60 div 60 div 24 = t2 div 1000 div 60 div 60 div 24"
    using assms(2) unfolding day .
  from time_fields_le[OF assms(1) this] show "iso_time t1 \<le> iso_time t2"
    unfolding iso_time_le_iff .
qed

lemma toISOString_mono:
  assumes "t1 \<le> t2" and "YearFromTime t2 \<le> 9999"
  shows "toISOString t1 \<le> toISOString t2"
proof (cases "t1 div 86400000 < t2 div 86400000")
  case True
  from iso_date_less[OF True] assms(2) show ?thesis
    by (simp add: toISOString_def append_le_iff YearFromTime_def)
next
  case False
  with assms(1) have same: "t1 div 86400000 = t2 div 86400000"
    using div_le_mono[of t1 t2 86400000] by simp
  from iso_time_le[OF assms(1) same]
  have "iso_time t1 < iso_time t2 \<or> iso_time t1 = iso_time t2"
    and len: "length (iso_time t1) = length (iso_time t2)"
    by (simp_all add: order_le_less)
  then have "iso_time t1 @ ''Z'' \<le> iso_time t2 @ ''Z''"
    by (simp add: append_le_iff)
  then have "''T'' @ iso_time t1 @ ''Z'' \<le> ''T'' @ iso_time t2 @ ''Z''"
    by simp
  then show ?thesis
    unfolding toISOString_def same by (simp only: append_le_iff[OF refl] simp_thms)
qed

lemma replicate_small: "replicate 1 x = [x]" "replicate 2 x = [x, x]" "replicate 3 x = [x, x, x]"
  by (simp_all add: numeral_2_eq_2 numeral_3_eq_3)

lemma get_health_reply:
  "get_health now =
     initial_state\<lparr>res := json_reply 200
       (JObj [(''status'', JStr ''OK''), (''timestamp'', JStr (toISOString now))])\<rparr>"
  by (simp add: get_health_def health_handler_def res_json_def getHeader_def setHeader_def
      res_end_def res_write_def json_reply_def initial_state_def new_response_def)

text \<open>
  C9, as the code has it.  \<^verbatim>\<open>GET /health\<close> always answers 200 with status \<^verbatim>\<open>"OK"\<close> and
  the ISO timestamp of the clock reading, spawning nothing and throwing nothing.  For two
  calls, if the clock reading of the second is not earlier than that of the first (the
  system clock was not set back in between) and its year is at most 9999, the timestamp of
  the second is greater than or equal to the timestamp of the first, as strings.
\<close>

theorem health_timestamps:
  assumes "t1 \<le> t2" and "YearFromTime t2 \<le> 9999"
  shows "res (get_health t1) = json_reply 200
           (JObj [(''status'', JStr ''OK''), (''timestamp'', JStr (toISOString t1))])
       \<and> res (get_health t2) = json_reply 200
           (JObj [(''status'', JStr ''OK''), (''timestamp'', JStr (toISOString t2))])
       \<and> toISOString t1 \<le> toISOString t2
       \<and> child (get_health t1) = None \<and> uncaught (get_health t1) = []
       \<and> child (get_health t2) = None \<and> uncaught (get_health t2) = []"
  using toISOString_mono[OF assms]
  by (simp add: get_health_reply initial_state_def)

theorem health_timestamps_witness:
  "res (get_health 1762112460000) = json_reply 200
     (JObj [(''status'', JStr ''OK''), (''timestamp'', JStr (toISOString 1762112460000))])
   \<and> toISOString 1762112460000 \<le> toISOString 1762112461000"
  using health_timestamps[of 1762112460000 1762112461000]
  by (simp add: YearFromTime_def year_from_days.simps days_in_year_def leap_year_def)

text \<open>
  C9 as stated fails: the timestamp is a reading of the system clock, which can be set
  back between two calls; then the second timestamp is smaller than the first.
\<close>

theorem health_timestamps_counterexample:
  "toISOString 1762112461000 = ''2025-11-02T19:41:01.000Z''
   \<and> toISOString 1762112460000 = ''2025-11-02T19:41:00.000Z''
   \<and> \<not> toISOString 1762112461000 \<le> toISOString 1762112460000"
  by (simp add: toISOString_def iso_date_def iso_time_def year_from_days.simps
      days_in_year_def leap_year_def month_lengths_def padStart_def string_of_nat.simps
      digit_def replicate_small)

subsection \<open>Further properties of the routes\<close>

lemma prompt_legacy_running_body:
  "list_all running evs \<Longrightarrow> \<not> finished (res st) \<Longrightarrow>
   body (res (run prompt_legacy_listener evs st))
     = body (res st) @ map chunk_event (stdout_chunks evs)
   \<and> \<not> finished (res (run prompt_legacy_listener evs st))"
proof (induction evs arbitrary: st)
  case Nil
  then show ?case by simp
next
  case (Cons e es)
  then show ?case
    by (cases e) (simp_all add: settle_def res_write_def)
qed

lemma post_prompt_legacy_accepted:
  assumes "single upload ''audio'' req = Inr audio"
    and "legacy_inputs req = Inr (promptInput, images, messages)"
    and "required_missing promptInput images audio = Inr False"
  shows "post_prompt_legacy cfg req (Spawned evs) =
           run prompt_legacy_listener evs
             (initial_state\<lparr>res := sse_head,
                child := Some (stdin_end (stdin_write
                   (json_stringify (prompt_payload promptInput images messages audio))
                   (spawn ''python3'' [PYTHON_SCRIPT_PATH cfg])))\<rparr>)"
  using assms
  by (auto simp add: post_prompt_legacy_def route_def prompt_legacy_handler_def initial_state_def
      sse_headers_new Let_def)

text \<open>
  The earlier \<^verbatim>\<open>/prompt\<close> frames each chunk of output as one \<^verbatim>\<open>chunk\<close> event, in the order
  of emission, and ends with one \<^verbatim>\<open>complete\<close> event.
\<close>

theorem prompt_legacy_stream_framed:
  assumes "single upload ''audio'' req = Inr audio"
    and "legacy_inputs req = Inr (promptInput, images, messages)"
    and "required_missing promptInput images audio = Inr False"
    and "list_all running evs"
  shows "body (res (post_prompt_legacy cfg req (Spawned (evs @ [ChildClose code]))))
           = map chunk_event (stdout_chunks evs) @ [complete_event code]
       \<and> finished (res (post_prompt_legacy cfg req (Spawned (evs @ [ChildClose code]))))"
proof -
  let ?st = "initial_state\<lparr>res := sse_head,
                child := Some (stdin_end (stdin_write
                   (json_stringify (prompt_payload promptInput images messages audio))
                   (spawn ''python3'' [PYTHON_SCRIPT_PATH cfg])))\<rparr>"
  have nf: "\<not> finished (res ?st)" and b0: "body (res ?st) = []"
    by (simp_all add: sse_head_def new_response_def)
  from prompt_legacy_running_body[OF assms(4) nf] b0
  have mid: "body (res (run prompt_legacy_listener evs ?st)) = map chunk_event (stdout_chunks evs)"
    "\<not> finished (res (run prompt_legacy_listener evs ?st))"
    by simp_all
  show ?thesis
    unfolding post_prompt_legacy_accepted[OF assms(1-3)] run_append
    using mid by (simp add: settle_def res_write_def res_end_def)
qed

theorem prompt_legacy_stream_framed_witness:
  "body (res (post_prompt_legacy example_config example_request
      (Spawned ([StdoutData ''Hel'', StdoutData ''lo''] @ [ChildClose (Some 0)]))))
     = [chunk_event ''Hel'', chunk_event ''lo'', complete_event (Some 0)]"
  using prompt_legacy_stream_framed[OF example_request_accepted(1) example_request_legacy,
      of "[StdoutData ''Hel'', StdoutData ''lo'']" example_config "Some 0"]
  by simp

lemma prompt_audio_running_child:
  "list_all running evs \<Longrightarrow> child st = Some p \<Longrightarrow> \<not> exited p \<Longrightarrow>
   \<exists>q. child (run prompt_audio_listener evs st) = Some q \<and> \<not> exited q
       \<and> length (signals p) \<le> length (signals q)"
proof (induction evs arbitrary: st p)
  case Nil
  then show ?case by simp
next
  case (Cons e es)
  show ?case
  proof (cases e)
    case ReqClose
    have "child (prompt_audio_listener ReqClose (settle ReqClose st)) = Some (kill p)"
      using Cons.prems(2) by (simp add: settle_def)
    moreover have "\<not> exited (kill p)" using Cons.prems(3) by (simp add: kill_def)
    ultimately obtain q where "child (run prompt_audio_listener es
          (prompt_audio_listener ReqClose (settle ReqClose st))) = Some q" "\<not> exited q"
        "length (signals (kill p)) \<le> length (signals q)"
      using Cons.IH[of "prompt_audio_listener ReqClose (settle ReqClose st)" "kill p"] Cons.prems(1)
      by auto
    then show ?thesis
      using ReqClose Cons.prems(3) by (auto simp add: kill_def)
  qed (use Cons in \<open>simp_all add: settle_def\<close>)
qed

text \<open>
  The earlier \<^verbatim>\<open>/prompt-audio\<close> does signal its child when the client disconnects while the
  child is running.
\<close>

theorem prompt_audio_disconnect_kills:
  assumes "single upload ''audio'' req = Inr audio"
    and "legacy_inputs req = Inr (promptInput, images, messages)"
    and "required_missing promptInput images audio = Inr False"
    and "list_all running evs"
  shows "signals_sent (post_prompt_audio cfg req (Spawned (evs @ [ReqClose]))) \<noteq> []"
proof -
  let ?p = "spawn ''python3''
                   [PYTHON_SCRIPT_PATH cfg,
                    [CHR 0x27] @ escape_quotes (json_stringify
                       (prompt_audio_payload promptInput images messages audio)) @ [CHR 0x27]]"
  let ?st = "initial_state\<lparr>res := sse_head, child := Some ?p\<rparr>"
  have "child ?st = Some ?p" "\<not> exited ?p" by (simp_all add: spawn_def)
  from prompt_audio_running_child[OF assms(4) this]
  obtain q where q: "child (run prompt_audio_listener evs ?st) = Some q" "\<not> exited q" by auto
  show ?thesis
    unfolding post_prompt_audio_accepted[OF assms(1-3)] run_append
    using q by (simp add: settle_def signals_sent_def kill_def)
qed

theorem prompt_audio_disconnect_kills_witness:
  "signals_sent (post_prompt_audio example_config example_request
      (Spawned ([StdoutData ''x''] @ [ReqClose]))) \<noteq> []"
  using prompt_audio_disconnect_kills[OF example_request_accepted(1) example_request_legacy,
      of "[StdoutData ''x'']" example_config]
  by simp

text \<open>\<^verbatim>\<open>POST /transcribe-audio\<close> without a file is answered 400, and nothing is spawned.\<close>

theorem transcribe_without_file:
  assumes "file_part req = None"
  shows "res (post_transcribe_audio cfg req sp)
           = json_reply 400 (JObj [(''error'', JStr ''No audio file provided'')])
       \<and> child (post_transcribe_audio cfg req sp) = None"
  using assms
  by (simp add: post_transcribe_audio_def route_def single_def transcribe_handler_def
      reply_def res_json_def res_status_def getHeader_def setHeader_def res_end_def
      res_write_def json_reply_def initial_state_def new_response_def)

theorem transcribe_without_file_witness:
  "res (post_transcribe_audio example_config empty_request (Spawned [ChildClose (Some 0)]))
     = json_reply 400 (JObj [(''error'', JStr ''No audio file provided'')])"
  using transcribe_without_file[of empty_request example_config "Spawned [ChildClose (Some 0)]"]
  by (simp add: empty_request_def)

lemma document_running:
  "list_all running evs \<Longrightarrow>
   run (document_listener n z) evs st =
     st\<lparr>stdout_output := stdout_output st @ concat (stdout_chunks evs),
        errorOutput := errorOutput st @ concat (stderr_chunks evs)\<rparr>"
proof (induction evs arbitrary: st)
  case Nil
  then show ?case by simp
next
  case (Cons e es)
  then show ?case
    by (cases e) (simp_all add: settle_def)
qed

text \<open>
  The response of \<^verbatim>\<open>POST /upload-document\<close> for an accepted PDF whose child runs to its
  \<^verbatim>\<open>close\<close> event.
\<close>

theorem upload_document_response:
  assumes "file_part req = Some f"
    and "fieldname f = ''document''"
    and "mimetype f = ''application/pdf''"
    and "length (buffer f) < 20 * 1024 * 1024"
    and "list_all running evs"
  shows "res (post_upload_document cfg req (Spawned (evs @ [ChildClose code]))) =
           (if code = Some 0
            then json_reply 200
                   (JObj [(''success'', JBool True),
                          (''message'',
                           JStr ''Document processed and added to knowledge base successfully''),
                          (''filename'', JStr (originalname f)),
                          (''size'', JNum (int (length (buffer f)))),
                          (''output'', JStr (js_trim (concat (stdout_chunks evs))))])
            else json_reply 500
                   (JObj [(''success'', JBool False),
                          (''error'', JStr ''Failed to process document for RAG''),
                          (''details'', JStr (or_else (concat (stderr_chunks evs))
                                                      (concat (stdout_chunks evs)))),
                          (''filename'', JStr (originalname f))]))"
proof -
  have acc: "single documentUpload ''document'' req = Inr (Some f)"
    using assms(1-4) by (simp add: single_def documentUpload_def)
  show ?thesis
    unfolding post_document_accepted[OF acc] run_append document_running[OF assms(5)]
    by (simp add: settle_def reply_in_listener_new json_in_listener_new initial_state_def
        json_reply_def)
qed

theorem upload_document_response_witness:
  "res (post_upload_document example_config pdf_request
      (Spawned ([StdoutData ''ok''] @ [ChildClose (Some 0)])))
     = json_reply 200
         (JObj [(''success'', JBool True),
                (''message'', JStr ''Document processed and added to knowledge base successfully''),
                (''filename'', JStr ''a.pdf''),
                (''size'', JNum 4),
                (''output'', JStr ''ok'')])"
  using upload_document_response[of pdf_request pdf_file "[StdoutData ''ok'']" example_config
      "Some 0"]
  by (simp add: pdf_request_def empty_request_def pdf_file_def js_trim_def js_space_def)

text \<open>
  When \<^verbatim>\<open>spawn\<close> itself throws, \<^verbatim>\<open>/prompt\<close> answers 500 with a JSON body and writes no
  event.
\<close>

theorem prompt_spawn_throws:
  assumes "single upload ''audio'' req = Inr audio"
    and "prompt_inputs req = Inr (promptInput, images, messages)"
    and "\<not> (promptInput = [] \<and> js_length images = Inr (Some 0) \<and> audio = None)"
  shows "statusCode (res (post_prompt cfg req (SpawnThrows m))) = 500
       \<and> body (res (post_prompt cfg req (SpawnThrows m)))
           = [json_stringify (JObj [(''error'', JStr ''Failed to process prompt'')])]
       \<and> finished (res (post_prompt cfg req (SpawnThrows m)))
       \<and> child (post_prompt cfg req (SpawnThrows m)) = None"
proof -
  have "post_prompt cfg req (SpawnThrows m) =
          (case reply 500 (JObj [(''error'', JStr ''Failed to process prompt'')])
                  (initial_state\<lparr>res := sse_head\<rparr>) of
             Inl e \<Rightarrow> express_error e initial_state
           | Inr st \<Rightarrow> st)"
    using assms
    by (auto simp add: post_prompt_def route_def prompt_handler_def initial_state_def
        sse_headers_new Let_def)
  then show ?thesis
    by (simp add: reply_def res_json_def res_status_def getHeader_def setHeader_def
        res_end_def res_write_def sse_head_def new_response_def initial_state_def)
qed

theorem prompt_spawn_throws_witness:
  "statusCode (res (post_prompt example_config example_request (SpawnThrows ''EAGAIN''))) = 500
   \<and> child (post_prompt example_config example_request (SpawnThrows ''EAGAIN'')) = None"
  using prompt_spawn_throws[OF example_request_accepted, of example_config "''EAGAIN''"]
  by simp

lemma json_in_listener_sent:
  "headersSent (res st) \<Longrightarrow>
   json_in_listener obj st = st\<lparr>uncaught := uncaught st @ [ERR_HTTP_HEADERS_SENT]\<rparr>"
  by (simp add: json_in_listener_def res_json_def setHeader_def)

lemma transcribe_sent_res:
  "headersSent (res st) \<Longrightarrow> res (run transcribe_listener evs st) = res st"
proof (induction evs arbitrary: st)
  case Nil
  show ?case by simp
next
  case (Cons e es)
  have "res (transcribe_listener e (settle e st)) = res st"
    using Cons.prems
    by (cases e) (simp_all add: settle_def reply_in_listener_sent json_in_listener_sent)
  with Cons show ?case by simp
qed



subsection \<open>The response of \<^verbatim>\<open>/transcribe-audio\<close>\<close>

text \<open>
  C7, as the code has it.  Take a request to \<^verbatim>\<open>POST /transcribe-audio\<close> whose audio file the upload
  middleware accepts (field \<^verbatim>\<open>audio\<close>, under 10 MiB).  If \<^verbatim>\<open>spawn\<close> throws, the response is
  the 500 JSON \<^verbatim>\<open>{error, details}\<close>, which has no \<^verbatim>\<open>success\<close> member.  While the child only
  produces output nothing is answered.  If the first terminating event of the child is
  \<^verbatim>\<open>close\<close>, the response is \<^verbatim>\<open>{success: true, transcribedText}\<close> with the trimmed
  accumulated standard output exactly when the exit code is 0, and otherwise the 500 JSON
  \<^verbatim>\<open>{success: false, error, details}\<close>; nothing is thrown.  If it is \<^verbatim>\<open>error\<close>, the response
  is the 500 JSON \<^verbatim>\<open>{success: false, error, details}\<close> of the \<^verbatim>\<open>error\<close> listener.  Later
  events do not change the response.
\<close>

theorem transcribe_response_cases:
  assumes "file_part req = Some f"
    and "fieldname f = ''audio''"
    and "length (buffer f) < 10 * 1024 * 1024"
    and "list_all running evs"
  shows "res (post_transcribe_audio cfg req (SpawnThrows m))
           = json_reply 500
               (JObj [(''error'', JStr ''Failed to process audio transcription''),
                      (''details'', JStr m)])
       \<and> res (post_transcribe_audio cfg req (Spawned evs)) = new_response
       \<and> res (post_transcribe_audio cfg req (Spawned (evs @ ChildClose code # rest))) =
           (if code = Some 0
            then json_reply 200
                   (JObj [(''success'', JBool True),
                          (''transcribedText'', JStr (js_trim (concat (stdout_chunks evs))))])
            else json_reply 500
                   (JObj [(''success'', JBool False),
                          (''error'', JStr ''Failed to transcribe audio''),
                          (''details'', JStr (or_else (concat (stderr_chunks evs))
                                                      (concat (stdout_chunks evs))))]))
       \<and> (statusCode (res (post_transcribe_audio cfg req (Spawned (evs @ ChildClose code # rest))))
            = 200) = (code = Some 0)
       \<and> uncaught (post_transcribe_audio cfg req (Spawned (evs @ [ChildClose code]))) = []
       \<and> res (post_transcribe_audio cfg req (Spawned (evs @ ChildError m # rest)))
           = json_reply 500
               (JObj [(''success'', JBool False),
                      (''error'', JStr ''Failed to start audio transcription''),
                      (''details'', JStr m)])"
proof -
  have acc: "single audioUpload ''audio'' req = Inr (Some f)"
    using assms(1-3) by (simp add: single_def audioUpload_def)
  have thrown: "res (post_transcribe_audio cfg req (SpawnThrows m))
           = json_reply 500
               (JObj [(''error'', JStr ''Failed to process audio transcription''),
                      (''details'', JStr m)])"
    using acc
    by (simp add: post_transcribe_audio_def route_def transcribe_handler_def Let_def reply_def
        res_json_def res_status_def getHeader_def setHeader_def res_end_def res_write_def
        json_reply_def initial_state_def new_response_def)
  have quiet: "res (post_transcribe_audio cfg req (Spawned evs)) = new_response"
    unfolding post_transcribe_accepted[OF acc] transcribe_running[OF assms(4)]
    by (simp add: initial_state_def)
  have split: "evs @ e # rest = evs @ [e] @ rest" for e :: event by simp
  have closed: "res (post_transcribe_audio cfg req (Spawned (evs @ ChildClose code # rest))) =
           (if code = Some 0
            then json_reply 200
                   (JObj [(''success'', JBool True),
                          (''transcribedText'', JStr (js_trim (concat (stdout_chunks evs))))])
            else json_reply 500
                   (JObj [(''success'', JBool False),
                          (''error'', JStr ''Failed to transcribe audio''),
                          (''details'', JStr (or_else (concat (stderr_chunks evs))
                                                      (concat (stdout_chunks evs))))]))"
    unfolding post_transcribe_accepted[OF acc] split run_append transcribe_running[OF assms(4)]
    by (subst transcribe_sent_res)
      (simp_all add: settle_def reply_in_listener_new json_in_listener_new initial_state_def
        json_reply_def)
  have quietly: "uncaught (post_transcribe_audio cfg req (Spawned (evs @ [ChildClose code]))) = []"
    unfolding post_transcribe_accepted[OF acc] run_append transcribe_running[OF assms(4)]
    by (simp add: settle_def reply_in_listener_new json_in_listener_new initial_state_def)
  have failed: "res (post_transcribe_audio cfg req (Spawned (evs @ ChildError m # rest)))
           = json_reply 500
               (JObj [(''success'', JBool False),
                      (''error'', JStr ''Failed to start audio transcription''),
                      (''details'', JStr m)])"
    unfolding post_transcribe_accepted[OF acc] split run_append transcribe_running[OF assms(4)]
    by (subst transcribe_sent_res)
      (simp_all add: settle_def reply_in_listener_new initial_state_def json_reply_def)
  from closed have "(statusCode (res (post_transcribe_audio cfg req
        (Spawned (evs @ ChildClose code # rest)))) = 200) = (code = Some 0)"
    by (simp add: json_reply_def)
  with thrown quiet closed quietly failed show ?thesis by simp
qed

theorem transcribe_response_cases_witness:
  "res (post_transcribe_audio example_config audio_request (SpawnThrows ''spawn EAGAIN''))
     = json_reply 500
         (JObj [(''error'', JStr ''Failed to process audio transcription''),
                (''details'', JStr ''spawn EAGAIN'')])
   \<and> res (post_transcribe_audio example_config audio_request
      (Spawned ([StdoutData '' hello '', StderrData ''warn'', StdoutData [CHR 0x0A]]
                @ ChildClose (Some 0) # [])))
     = json_reply 200 (JObj [(''success'', JBool True), (''transcribedText'', JStr ''hello'')])
   \<and> res (post_transcribe_audio example_config audio_request
      (Spawned ([StdoutData '' hello '', StderrData ''warn'', StdoutData [CHR 0x0A]]
                @ ChildError ''spawn EAGAIN'' # [])))
     = json_reply 500
         (JObj [(''success'', JBool False),
                (''error'', JStr ''Failed to start audio transcription''),
                (''details'', JStr ''spawn EAGAIN'')])"
  using transcribe_response_cases[where req = audio_request and f = audio_file
      and evs = "[StdoutData '' hello '', StderrData ''warn'', StdoutData [CHR 0x0A]]"
      and cfg = example_config and code = "Some 0" and m = "''spawn EAGAIN''" and rest = "[]"]
  by (simp add: audio_request_def empty_request_def audio_file_def js_trim_def js_space_def)

text \<open>
  C7 as stated fails: when \<^verbatim>\<open>spawn\<close> throws for a request that carries an audio file, the
  500 response is \<^verbatim>\<open>{error, details}\<close> and not \<^verbatim>\<open>{success: false, error, details}\<close>.
\<close>

theorem transcribe_spawn_throws_counterexample:
  "res (post_transcribe_audio example_config audio_request (SpawnThrows ''spawn EAGAIN''))
     = json_reply 500
         (JObj [(''error'', JStr ''Failed to process audio transcription''),
                (''details'', JStr ''spawn EAGAIN'')])
   \<and> json_reply 500
         (JObj [(''error'', JStr ''Failed to process audio transcription''),
                (''details'', JStr ''spawn EAGAIN'')])
     \<noteq> json_reply 500
         (JObj [(''success'', JBool False),
                (''error'', JStr ''Failed to process audio transcription''),
                (''details'', JStr ''spawn EAGAIN'')])"
  by (simp add: post_transcribe_audio_def route_def transcribe_handler_def Let_def reply_def
      res_json_def res_status_def getHeader_def setHeader_def res_end_def res_write_def
      json_reply_def initial_state_def new_response_def single_def audioUpload_def
      audio_request_def empty_request_def audio_file_def)

subsection \<open>One response for each upload\<close>










subsection \<open>Failure to start the child\<close>

text \<open>
  C3 at a failing input: the executable of \<^verbatim>\<open>/prompt\<close> cannot be started, which Node
  reports by the child's \<^verbatim>\<open>error\<close> event.  No 5xx JSON error is answered: nothing is
  written, the response is never ended, and the \<^verbatim>\<open>error\<close> event, which has no listener,
  is thrown uncaught.  On \<^verbatim>\<open>/transcribe-audio\<close> and \<^verbatim>\<open>/upload-document\<close> the \<^verbatim>\<open>error\<close>
  listener answers 500, and the \<^verbatim>\<open>close\<close> listener that follows answers again on the
  response already sent, which throws \<^verbatim>\<open>ERR_HTTP_HEADERS_SENT\<close> uncaught.
\<close>

theorem start_failure_uncaught:
  "body (res (post_prompt example_config example_request
      (Spawned [ChildError ''spawn ENOENT'']))) = []
   \<and> \<not> headersSent (res (post_prompt example_config example_request
      (Spawned [ChildError ''spawn ENOENT''])))
   \<and> \<not> finished (res (post_prompt example_config example_request
      (Spawned [ChildError ''spawn ENOENT''])))
   \<and> uncaught (post_prompt example_config example_request
      (Spawned [ChildError ''spawn ENOENT''])) = [UnhandledErrorEvent ''spawn ENOENT'']
   \<and> uncaught (post_transcribe_audio example_config audio_request
      (Spawned [ChildError ''spawn python3 ENOENT'', ChildClose (Some (- 2))]))
       = [ERR_HTTP_HEADERS_SENT]
   \<and> uncaught (post_upload_document example_config pdf_request
      (Spawned [ChildError ''spawn python3 ENOENT'', ChildClose (Some (- 2))]))
       = [ERR_HTTP_HEADERS_SENT]"
  unfolding post_prompt_accepted[OF example_request_accepted]
    post_transcribe_accepted[OF audio_request_accepted]
    post_document_accepted[OF pdf_request_accepted]
  by (simp add: initial_state_def sse_head_def new_response_def settle_def res_write_def
      res_end_def reply_in_listener_new reply_in_listener_sent json_reply_def)

end
